theory Spec2Isabelle
  imports Complex_Main
begin

section \<open>Ellipsoid fitting: the data model\<close>

text \<open>
  The development follows \<^verbatim>\<open>src/ellipsoid_fit/fit.cpp\<close>, the full overload of
  \<^verbatim>\<open>ellipsoid::fit\<close>. Where a statement is about the layout of the data (which entry
  is written, from which expression, in which order) the numbers are reals and every
  \<^verbatim>\<open>double\<close> operation is read as the exact operation. Where a statement depends on what
  the operations return (the sum of the quadratic coefficients, the radii) the numbers
  are the doubles of IEEE 754 declared below, with rounding to nearest, overflow to an
  infinity, the signed zeros and NaN.

  The decompositions of the Eigen library (\<^verbatim>\<open>bdcSvd().solve\<close>, \<^verbatim>\<open>EigenSolver\<close>) and the
  routine \<^verbatim>\<open>eigenOrder::leastRotationAngle\<close> are called by \<^verbatim>\<open>fit\<close> and defined elsewhere;
  they are parameters of the model.
\<close>

datatype EllipsoidType =
  Arbitrary | XYEqual | XZEqual | Sphere | Aligned | AlignedXYEqual | AlignedXZEqual

type_synonym vec = "real list"

text \<open>A matrix of fixed size is the list of its rows.\<close>

type_synonym mat = "real list list"

text \<open>One row of the \<open>N \<times> 3\<close> input: the coordinates of a point.\<close>

type_synonym point = "real \<times> real \<times> real"

text \<open>
  A vector or matrix that has been declared or resized and not yet written holds no
  value: its entries are \<open>None\<close> until an assignment stores \<open>Some\<close> number. The dynamic
  matrix \<^verbatim>\<open>D\<close> is kept as the list of its columns, as the code fills it.
\<close>

type_synonym uvec = "real option list"

type_synonym dmat = "real option list list"

definition stored :: "'a option list \<Rightarrow> 'a list" where
  "stored v = map the v"

subsection \<open>Coefficient-wise expressions\<close>

definition cwiseProduct :: "vec \<Rightarrow> vec \<Rightarrow> vec" where
  "cwiseProduct a b = map2 (*) a b"

definition vplus :: "vec \<Rightarrow> vec \<Rightarrow> vec" where
  "vplus a b = map2 (+) a b"

definition vminus :: "vec \<Rightarrow> vec \<Rightarrow> vec" where
  "vminus a b = map2 (-) a b"

definition scale :: "real \<Rightarrow> vec \<Rightarrow> vec" where
  "scale c a = map ((*) c) a"

definition dot :: "vec \<Rightarrow> vec \<Rightarrow> real" where
  "dot a b = sum_list (map2 (*) a b)"

subsection \<open>Writing into vectors and matrices\<close>

text \<open>\<^verbatim>\<open>D.resize(r, c)\<close>: \<open>c\<close> columns of \<open>r\<close> entries, none of them written.\<close>

definition resize :: "nat \<Rightarrow> nat \<Rightarrow> dmat" where
  "resize r c = replicate c (replicate r None)"

text \<open>\<^verbatim>\<open>D.col(j) = xs\<close> and \<^verbatim>\<open>D.col(j).setOnes()\<close>.\<close>

definition set_col :: "nat \<Rightarrow> vec \<Rightarrow> dmat \<Rightarrow> dmat" where
  "set_col j xs D = D[j := map Some xs]"

definition set_col_ones :: "nat \<Rightarrow> dmat \<Rightarrow> dmat" where
  "set_col_ones j D = D[j := map (\<lambda>_. Some 1) (D ! j)]"

text \<open>\<^verbatim>\<open>u.segment<n>(start)\<close>: the \<open>n\<close> entries of \<open>u\<close> from index \<open>start\<close> on.\<close>

definition segment :: "nat \<Rightarrow> nat \<Rightarrow> 'a list \<Rightarrow> 'a list" where
  "segment n start u = take n (drop start u)"

text \<open>\<^verbatim>\<open>v(i) = x\<close> and \<^verbatim>\<open>v.segment<n>(start) = xs\<close> on a vector being filled.\<close>

definition assign :: "nat \<Rightarrow> 'a \<Rightarrow> 'a option list \<Rightarrow> 'a option list" where
  "assign i x v = v[i := Some x]"

definition assign_segment :: "nat \<Rightarrow> 'a list \<Rightarrow> 'a option list \<Rightarrow> 'a option list" where
  "assign_segment start xs v = fold (\<lambda>(i, x) w. w[start + i := Some x]) (enumerate 0 xs) v"

section \<open>The design matrix\<close>

text \<open>
  Lines 47 to 128: the columns \<open>x\<close>, \<open>y\<close>, \<open>z\<close> of the data, their squares, and the switch
  that resizes \<^verbatim>\<open>D\<close> and assigns its columns.
\<close>

definition col_x :: "point list \<Rightarrow> vec" where
  "col_x data = map (\<lambda>(x, y, z). x) data"

definition col_y :: "point list \<Rightarrow> vec" where
  "col_y data = map (\<lambda>(x, y, z). y) data"

definition col_z :: "point list \<Rightarrow> vec" where
  "col_z data = map (\<lambda>(x, y, z). z) data"

definition design_matrix :: "EllipsoidType \<Rightarrow> point list \<Rightarrow> dmat" where
  "design_matrix ty data =
    (let x = col_x data; y = col_y data; z = col_z data;
         x_sq = cwiseProduct x x; y_sq = cwiseProduct y y; z_sq = cwiseProduct z z;
         rows = length data
     in case ty of
       Arbitrary \<Rightarrow>
         set_col_ones 8 (fold (\<lambda>(j, c). set_col j c)
           [(0, vminus (vplus x_sq y_sq) (scale 2 z_sq)),
            (1, vminus (vplus x_sq z_sq) (scale 2 y_sq)),
            (2, scale 2 (cwiseProduct x y)),
            (3, scale 2 (cwiseProduct x z)),
            (4, scale 2 (cwiseProduct y z)),
            (5, scale 2 x),
            (6, scale 2 y),
            (7, scale 2 z)] (resize rows 9))
     | XYEqual \<Rightarrow>
         set_col_ones 7 (fold (\<lambda>(j, c). set_col j c)
           [(0, vminus (vplus x_sq y_sq) (scale 2 z_sq)),
            (1, scale 2 (cwiseProduct x y)),
            (2, scale 2 (cwiseProduct x z)),
            (3, scale 2 (cwiseProduct y z)),
            (4, scale 2 x),
            (5, scale 2 y),
            (6, scale 2 z)] (resize rows 8))
     | XZEqual \<Rightarrow>
         set_col_ones 7 (fold (\<lambda>(j, c). set_col j c)
           [(0, vminus (vplus x_sq z_sq) (scale 2 y_sq)),
            (1, scale 2 (cwiseProduct x y)),
            (2, scale 2 (cwiseProduct x z)),
            (3, scale 2 (cwiseProduct y z)),
            (4, scale 2 x),
            (5, scale 2 y),
            (6, scale 2 z)] (resize rows 8))
     | Sphere \<Rightarrow>
         set_col_ones 3 (fold (\<lambda>(j, c). set_col j c)
           [(0, scale 2 x),
            (1, scale 2 y),
            (2, scale 2 z)] (resize rows 4))
     | Aligned \<Rightarrow>
         set_col_ones 5 (fold (\<lambda>(j, c). set_col j c)
           [(0, vminus (vplus x_sq y_sq) (scale 2 z_sq)),
            (1, vminus (vplus x_sq z_sq) (scale 2 y_sq)),
            (2, scale 2 x),
            (3, scale 2 y),
            (4, scale 2 z)] (resize rows 6))
     | AlignedXYEqual \<Rightarrow>
         set_col_ones 4 (fold (\<lambda>(j, c). set_col j c)
           [(0, vminus (vplus x_sq y_sq) (scale 2 z_sq)),
            (1, scale 2 x),
            (2, scale 2 y),
            (3, scale 2 z)] (resize rows 5))
     | AlignedXZEqual \<Rightarrow>
         set_col_ones 4 (fold (\<lambda>(j, c). set_col j c)
           [(0, vminus (vplus x_sq z_sq) (scale 2 y_sq)),
            (1, scale 2 x),
            (2, scale 2 y),
            (3, scale 2 z)] (resize rows 5)))"

text \<open>Line 131: the right-hand side \<^verbatim>\<open>d2\<close> of the least-squares problem.\<close>

definition d2 :: "point list \<Rightarrow> vec" where
  "d2 data =
    (let x = col_x data; y = col_y data; z = col_z data
     in vplus (vplus (cwiseProduct x x) (cwiseProduct y y)) (cwiseProduct z z))"

text \<open>
  Lines 132 to 134: the two products handed to the decomposition, \<open>D\<^sup>T D\<close> and
  \<open>D\<^sup>T d2\<close>. Entry \<open>(i, j)\<close> of the first is the product of columns \<open>i\<close> and \<open>j\<close>.
\<close>

definition normal_matrix :: "dmat \<Rightarrow> mat" where
  "normal_matrix D = map (\<lambda>ci. map (\<lambda>cj. dot ci cj) (map stored D)) (map stored D)"

definition normal_rhs :: "dmat \<Rightarrow> vec \<Rightarrow> vec" where
  "normal_rhs D b = map (\<lambda>ci. dot ci b) (map stored D)"

section \<open>Double-precision arithmetic\<close>

text \<open>
  A double is a finite real (\<open>Finite 0\<close> is the positive zero), the negative zero, an
  infinity or a NaN. The reals that are doubles are those that rounding leaves as they
  are, among them every \<open>m \<cdot> 2\<^sup>q\<close> with \<open>\<bar>m\<bar> < 2\<^sup>5\<^sup>3\<close> and \<open>- 1074 \<le> q \<le> 971\<close>.
\<close>

datatype double = Finite real | NegZero | PosInf | NegInf | NaN

text \<open>The nearest integer, a tie going to the even one.\<close>

definition round_even :: "real \<Rightarrow> int" where
  "round_even t =
    (let f = \<lfloor>t\<rfloor>; r = t - of_int f
     in if r < 1 / 2 then f else if 1 / 2 < r then f + 1 else if even f then f else f + 1)"

text \<open>
  The binary exponent of a real other than zero, not below that of the subnormal numbers;
  the doubles around \<open>x\<close> are the multiples of \<open>2\<close> to the power \<open>exponent x - 52\<close>.
\<close>

definition exponent :: "real \<Rightarrow> int" where
  "exponent x = max \<lfloor>log 2 \<bar>x\<bar>\<rfloor> (- 1022)"

definition round_real :: "real \<Rightarrow> real" where
  "round_real x =
    (if x = 0 then 0
     else of_int (round_even (x / 2 powi (exponent x - 52))) * 2 powi (exponent x - 52))"

definition min_subnormal :: real where
  "min_subnormal = 2 powi (- 1074)"

definition overflow_bound :: real where
  "overflow_bound = 2 ^ 1024"

text \<open>
  Rounding to nearest of IEEE 754: the real is rounded as if the exponent had no upper
  limit; a result of magnitude \<open>2\<^sup>1\<^sup>0\<^sup>2\<^sup>4\<close> or more is an infinity, and a negative real
  that rounds to zero gives the negative zero.
\<close>

definition round64 :: "real \<Rightarrow> double" where
  "round64 x =
    (let y = round_real x
     in if overflow_bound \<le> y then PosInf
        else if y \<le> - overflow_bound then NegInf
        else if y = 0 \<and> x < 0 then NegZero
        else Finite y)"

text \<open>The reals that are doubles, and the values of the model that are doubles.\<close>

definition representable :: "real \<Rightarrow> bool" where
  "representable r = (round64 r = Finite r)"

fun is_double :: "double \<Rightarrow> bool" where
  "is_double (Finite x) = representable x"
| "is_double NegZero = True"
| "is_double PosInf = True"
| "is_double NegInf = True"
| "is_double NaN = True"

fun is_finite :: "double \<Rightarrow> bool" where
  "is_finite (Finite x) = True"
| "is_finite NegZero = True"
| "is_finite PosInf = False"
| "is_finite NegInf = False"
| "is_finite NaN = False"

text \<open>The real value of a finite double.\<close>

fun val :: "double \<Rightarrow> real" where
  "val (Finite x) = x"
| "val NegZero = 0"
| "val PosInf = 0"
| "val NegInf = 0"
| "val NaN = 0"

fun signbit :: "double \<Rightarrow> bool" where
  "signbit (Finite x) = (x < 0)"
| "signbit NegZero = True"
| "signbit PosInf = False"
| "signbit NegInf = True"
| "signbit NaN = False"

text \<open>
  Negation, addition, subtraction and multiplication. A sum of finite doubles that is
  zero is the positive zero, unless both are the negative zero; a product that is zero
  has the sign of its factors; \<open>\<infinity> - \<infinity>\<close> and \<open>0 \<cdot> \<infinity>\<close> are NaN.
\<close>

fun double_neg :: "double \<Rightarrow> double" where
  "double_neg (Finite x) = (if x = 0 then NegZero else Finite (- x))"
| "double_neg NegZero = Finite 0"
| "double_neg PosInf = NegInf"
| "double_neg NegInf = PosInf"
| "double_neg NaN = NaN"

definition double_add :: "double \<Rightarrow> double \<Rightarrow> double" where
  "double_add a b =
    (if a = NaN \<or> b = NaN then NaN
     else if a = PosInf then (if b = NegInf then NaN else PosInf)
     else if a = NegInf then (if b = PosInf then NaN else NegInf)
     else if b = PosInf then PosInf
     else if b = NegInf then NegInf
     else if val a + val b = 0 then (if a = NegZero \<and> b = NegZero then NegZero else Finite 0)
     else round64 (val a + val b))"

definition double_sub :: "double \<Rightarrow> double \<Rightarrow> double" where
  "double_sub a b = double_add a (double_neg b)"

definition double_mul :: "double \<Rightarrow> double \<Rightarrow> double" where
  "double_mul a b =
    (if a = NaN \<or> b = NaN then NaN
     else if \<not> is_finite a \<or> \<not> is_finite b then
       (if (is_finite a \<and> val a = 0) \<or> (is_finite b \<and> val b = 0) then NaN
        else if signbit a \<noteq> signbit b then NegInf else PosInf)
     else if val a * val b = 0 then (if signbit a \<noteq> signbit b then NegZero else Finite 0)
     else round64 (val a * val b))"

text \<open>\<open>1 / x\<close> and \<open>sqrt x\<close>, as \<^verbatim>\<open>cwiseInverse\<close> and \<^verbatim>\<open>cwiseSqrt\<close> apply them to an entry.\<close>

fun inverse_double :: "double \<Rightarrow> double" where
  "inverse_double (Finite x) = (if x = 0 then PosInf else round64 (1 / x))"
| "inverse_double NegZero = NegInf"
| "inverse_double PosInf = Finite 0"
| "inverse_double NegInf = NegZero"
| "inverse_double NaN = NaN"

fun sqrt_double :: "double \<Rightarrow> double" where
  "sqrt_double (Finite x) = (if x < 0 then NaN else round64 (sqrt x))"
| "sqrt_double NegZero = NegZero"
| "sqrt_double PosInf = PosInf"
| "sqrt_double NegInf = NaN"
| "sqrt_double NaN = NaN"

section \<open>Back-substitution to the ten coefficients\<close>

text \<open>
  Lines 141 to 187. The vector \<^verbatim>\<open>v\<close> is declared without a value and the switch writes it;
  \<open>u\<close> is the solution of the normal equations, with one entry for each column of \<^verbatim>\<open>D\<close>.
\<close>

definition back_substitution :: "EllipsoidType \<Rightarrow> vec \<Rightarrow> uvec" where
  "back_substitution ty u =
    (let v = replicate 10 None
     in case ty of
       Arbitrary \<Rightarrow>
         assign_segment 3 (segment 7 2 u)
           (assign 2 (u ! 1 - 2 * u ! 0 - 1)
             (assign 1 (u ! 0 - 2 * u ! 1 - 1)
               (assign 0 (u ! 0 + u ! 1 - 1) v)))
     | XYEqual \<Rightarrow>
         assign_segment 3 (segment 7 1 u)
           (assign 2 (- 2 * u ! 0 - 1)
             (assign 1 (u ! 0 - 1)
               (assign 0 (u ! 0 - 1) v)))
     | XZEqual \<Rightarrow>
         assign_segment 3 (segment 7 1 u)
           (assign 2 (u ! 0 - 1)
             (assign 1 (- 2 * u ! 0 - 1)
               (assign 0 (u ! 0 - 1) v)))
     | Sphere \<Rightarrow>
         assign_segment 6 (segment 4 0 u)
           (assign_segment 3 (replicate 3 0)
             (assign_segment 0 (replicate 3 (- 1)) v))
     | Aligned \<Rightarrow>
         assign_segment 6 (segment 4 2 u)
           (assign_segment 3 (replicate 3 0)
             (assign 2 (u ! 1 - 2 * u ! 0 - 1)
               (assign 1 (u ! 0 - 2 * u ! 1 - 1)
                 (assign 0 (u ! 0 + u ! 1 - 1) v))))
     | AlignedXYEqual \<Rightarrow>
         assign_segment 6 (segment 4 1 u)
           (assign_segment 3 (replicate 3 0)
             (assign 2 (- 2 * u ! 0 - 1)
               (assign 1 (u ! 0 - 1)
                 (assign 0 (u ! 0 - 1) v))))
     | AlignedXZEqual \<Rightarrow>
         assign_segment 6 (segment 4 1 u)
           (assign_segment 3 (replicate 3 0)
             (assign 2 (u ! 0 - 1)
               (assign 1 (- 2 * u ! 0 - 1)
                 (assign 0 (u ! 0 - 1) v)))))"

text \<open>
  The same switch in the arithmetic of doubles: every \<^verbatim>\<open>+\<close>, \<^verbatim>\<open>-\<close> and \<^verbatim>\<open>*\<close> of lines 144
  to 183 rounds its result, in the order in which C++ evaluates the expression.
\<close>

definition back_substitution_double :: "EllipsoidType \<Rightarrow> double list \<Rightarrow> double option list" where
  "back_substitution_double ty u =
    (let v = replicate 10 None
     in case ty of
       Arbitrary \<Rightarrow>
         assign_segment 3 (segment 7 2 u)
           (assign 2 (double_sub (double_sub (u ! 1) (double_mul (Finite 2) (u ! 0))) (Finite 1))
             (assign 1 (double_sub (double_sub (u ! 0) (double_mul (Finite 2) (u ! 1))) (Finite 1))
               (assign 0 (double_sub (double_add (u ! 0) (u ! 1)) (Finite 1)) v)))
     | XYEqual \<Rightarrow>
         assign_segment 3 (segment 7 1 u)
           (assign 2 (double_sub (double_mul (Finite (- 2)) (u ! 0)) (Finite 1))
             (assign 1 (double_sub (u ! 0) (Finite 1))
               (assign 0 (double_sub (u ! 0) (Finite 1)) v)))
     | XZEqual \<Rightarrow>
         assign_segment 3 (segment 7 1 u)
           (assign 2 (double_sub (u ! 0) (Finite 1))
             (assign 1 (double_sub (double_mul (Finite (- 2)) (u ! 0)) (Finite 1))
               (assign 0 (double_sub (u ! 0) (Finite 1)) v)))
     | Sphere \<Rightarrow>
         assign_segment 6 (segment 4 0 u)
           (assign_segment 3 (replicate 3 (Finite 0))
             (assign_segment 0 (replicate 3 (Finite (- 1))) v))
     | Aligned \<Rightarrow>
         assign_segment 6 (segment 4 2 u)
           (assign_segment 3 (replicate 3 (Finite 0))
             (assign 2 (double_sub (double_sub (u ! 1) (double_mul (Finite 2) (u ! 0))) (Finite 1))
               (assign 1
                 (double_sub (double_sub (u ! 0) (double_mul (Finite 2) (u ! 1))) (Finite 1))
                 (assign 0 (double_sub (double_add (u ! 0) (u ! 1)) (Finite 1)) v))))
     | AlignedXYEqual \<Rightarrow>
         assign_segment 6 (segment 4 1 u)
           (assign_segment 3 (replicate 3 (Finite 0))
             (assign 2 (double_sub (double_mul (Finite (- 2)) (u ! 0)) (Finite 1))
               (assign 1 (double_sub (u ! 0) (Finite 1))
                 (assign 0 (double_sub (u ! 0) (Finite 1)) v))))
     | AlignedXZEqual \<Rightarrow>
         assign_segment 6 (segment 4 1 u)
           (assign_segment 3 (replicate 3 (Finite 0))
             (assign 2 (double_sub (u ! 0) (Finite 1))
               (assign 1 (double_sub (double_mul (Finite (- 2)) (u ! 0)) (Finite 1))
                 (assign 0 (double_sub (u ! 0) (Finite 1)) v)))))"

text \<open>
  The number of columns of the design matrix of each variant, as the specification lists
  them; it is the length of \<open>u\<close>.
\<close>

fun design_cols :: "EllipsoidType \<Rightarrow> nat" where
  "design_cols Arbitrary = 9"
| "design_cols XYEqual = 8"
| "design_cols XZEqual = 8"
| "design_cols Sphere = 4"
| "design_cols Aligned = 6"
| "design_cols AlignedXYEqual = 5"
| "design_cols AlignedXZEqual = 5"

section \<open>The quadric matrix and the translation to the center\<close>

text \<open>
  Lines 56 and 57 give the algebraic form the ten coefficients \<open>v = (A, \<dots>, J)\<close> stand for:
  \<open>Ax\<^sup>2 + By\<^sup>2 + Cz\<^sup>2 + 2Dxy + 2Exz + 2Fyz + 2Gx + 2Hy + 2Iz + J\<close>. The cross and
  linear terms of the form are the doubled entries of \<open>v\<close>.
\<close>

definition term_xy :: "vec \<Rightarrow> real" where "term_xy v = 2 * v ! 3"
definition term_xz :: "vec \<Rightarrow> real" where "term_xz v = 2 * v ! 4"
definition term_yz :: "vec \<Rightarrow> real" where "term_yz v = 2 * v ! 5"
definition term_x :: "vec \<Rightarrow> real" where "term_x v = 2 * v ! 6"
definition term_y :: "vec \<Rightarrow> real" where "term_y v = 2 * v ! 7"
definition term_z :: "vec \<Rightarrow> real" where "term_z v = 2 * v ! 8"

definition quadric :: "vec \<Rightarrow> point \<Rightarrow> real" where
  "quadric v p =
    (case p of (x, y, z) \<Rightarrow>
       v ! 0 * (x * x) + v ! 1 * (y * y) + v ! 2 * (z * z)
       + term_xy v * (x * y) + term_xz v * (x * z) + term_yz v * (y * z)
       + term_x v * x + term_y v * y + term_z v * z + v ! 9)"

text \<open>Lines 190 to 192: the comma initialiser fills \<^verbatim>\<open>A\<close> row by row.\<close>

definition quadric_matrix :: "vec \<Rightarrow> mat" where
  "quadric_matrix v =
    [[v ! 0, v ! 3, v ! 4, v ! 6],
     [v ! 3, v ! 1, v ! 5, v ! 7],
     [v ! 4, v ! 5, v ! 2, v ! 8],
     [v ! 6, v ! 7, v ! 8, v ! 9]]"

subsection \<open>Matrix operations\<close>

definition mcol :: "nat \<Rightarrow> mat \<Rightarrow> vec" where
  "mcol j M = map (\<lambda>r. r ! j) M"

definition mtranspose :: "mat \<Rightarrow> mat" where
  "mtranspose M = (case M of [] \<Rightarrow> [] | r # _ \<Rightarrow> map (\<lambda>j. mcol j M) [0..<length r])"

definition mat_mul :: "mat \<Rightarrow> mat \<Rightarrow> mat" where
  "mat_mul M N = map (\<lambda>r. map (dot r) (mtranspose N)) M"

definition mat_vec :: "mat \<Rightarrow> vec \<Rightarrow> vec" where
  "mat_vec M x = map (\<lambda>r. dot r x) M"

text \<open>\<^verbatim>\<open>M.block<3, 3>(0, 0)\<close>.\<close>

definition block33 :: "mat \<Rightarrow> mat" where
  "block33 M = map (take 3) (take 3 M)"

definition identity4 :: mat where
  "identity4 = [[1, 0, 0, 0], [0, 1, 0, 0], [0, 0, 1, 0], [0, 0, 0, 1]]"

text \<open>\<^verbatim>\<open>M.block<1, n>(i, start) = xs\<close>: part of row \<open>i\<close> is overwritten.\<close>

definition assign_row_block :: "nat \<Rightarrow> nat \<Rightarrow> vec \<Rightarrow> mat \<Rightarrow> mat" where
  "assign_row_block i start xs M =
    M[i := fold (\<lambda>(j, x) r. r[start + j := x]) (enumerate 0 xs) (M ! i)]"

subsection \<open>Lines 195 to 204\<close>

text \<open>
  The center is the negated solution of the \<open>3 \<times> 3\<close> system; the solver is Eigen's.
\<close>

definition center_of :: "(mat \<Rightarrow> vec \<Rightarrow> vec) \<Rightarrow> mat \<Rightarrow> vec \<Rightarrow> vec" where
  "center_of bdcSvd_solve A v = map uminus (bdcSvd_solve (block33 A) (segment 3 6 v))"

definition translation :: "vec \<Rightarrow> mat" where
  "translation c = assign_row_block 3 0 (segment 3 0 c) identity4"

definition translated :: "mat \<Rightarrow> vec \<Rightarrow> mat" where
  "translated A c = (let T = translation c in mat_mul (mat_mul T A) (mtranspose T))"

text \<open>
  The argument of \<^verbatim>\<open>EigenSolver\<close>: \<^verbatim>\<open>R.block<3, 3>(0, 0) / -R(3, 3)\<close>. The quotient is
  the real one; where \<open>R(3, 3)\<close> is zero the code divides by zero and its entries are
  infinities or NaN, which this matrix of reals does not show.
\<close>

definition eigen_input :: "mat \<Rightarrow> mat" where
  "eigen_input R = map (map (\<lambda>a. a / - (R ! 3 ! 3))) (block33 R)"

section \<open>The radii\<close>

definition cwiseInverse :: "double list \<Rightarrow> double list" where
  "cwiseInverse xs = map inverse_double xs"

definition cwiseSqrt :: "double list \<Rightarrow> double list" where
  "cwiseSqrt xs = map sqrt_double xs"

text \<open>Line 210: \<^verbatim>\<open>eval.cwiseInverse().cwiseSqrt()\<close>.\<close>

definition radii_of :: "double list \<Rightarrow> double list" where
  "radii_of eval = cwiseSqrt (cwiseInverse eval)"

section \<open>The routine\<close>

record Parameters =
  center :: vec
  radii :: "double list"

text \<open>
  The three optional destinations. A null pointer is \<open>None\<close>; a destination is \<open>Some\<close> of
  what it holds. \<^verbatim>\<open>if (p != nullptr) *p = x\<close> is \<open>store\<close>.
\<close>

record destinations =
  coefficients_p :: "vec option"
  eval_p :: "double list option"
  evec_column_p :: "double list list option"

definition store :: "'a option \<Rightarrow> 'a \<Rightarrow> 'a option" where
  "store p x = (case p of None \<Rightarrow> None | Some old \<Rightarrow> Some x)"

text \<open>
  Lines 41 to 228, with the three routines defined outside the file as parameters:
  \<open>bdcSvd_solve M b\<close> for \<^verbatim>\<open>M.bdcSvd(ComputeFullU | ComputeFullV).solve(b)\<close>,
  \<open>EigenSolver M\<close> for the real parts of the eigenvalues and eigenvectors of \<open>M\<close>, and
  \<open>leastRotationAngle\<close> for the reordering of the eigenpairs, which the code applies in
  place. The result is the returned \<open>Parameters\<close> and the destinations after the call.
\<close>

definition fit ::
  "(mat \<Rightarrow> vec \<Rightarrow> vec) \<Rightarrow> (mat \<Rightarrow> double list \<times> double list list) \<Rightarrow>
   (double list \<times> double list list \<Rightarrow> double list \<times> double list list) \<Rightarrow>
   point list \<Rightarrow> destinations \<Rightarrow> EllipsoidType \<Rightarrow> Parameters \<times> destinations" where
  "fit bdcSvd_solve EigenSolver leastRotationAngle data dst ty =
    (let D = design_matrix ty data;
         u = bdcSvd_solve (normal_matrix D) (normal_rhs D (d2 data));
         v = stored (back_substitution ty u);
         A = quadric_matrix v;
         c = center_of bdcSvd_solve A v;
         R = translated A c;
         solver = EigenSolver (eigen_input R);
         ordered = leastRotationAngle solver;
         eval = fst ordered;
         evec_column = snd ordered;
         params = \<lparr>center = c, radii = radii_of eval\<rparr>
     in (params,
         \<lparr>coefficients_p = store (coefficients_p dst) v,
          eval_p = store (eval_p dst) eval,
          evec_column_p = store (evec_column_p dst) evec_column\<rparr>))"

text \<open>The matrix a call of \<open>fit\<close> hands to \<^verbatim>\<open>EigenSolver\<close>.\<close>

definition fit_eigen_input :: "(mat \<Rightarrow> vec \<Rightarrow> vec) \<Rightarrow> point list \<Rightarrow> EllipsoidType \<Rightarrow> mat" where
  "fit_eigen_input bdcSvd_solve data ty =
    (let D = design_matrix ty data;
         u = bdcSvd_solve (normal_matrix D) (normal_rhs D (d2 data));
         v = stored (back_substitution ty u);
         A = quadric_matrix v
     in eigen_input (translated A (center_of bdcSvd_solve A v)))"

text \<open>Lines 24 to 39: the overloads with fewer destinations.\<close>

definition null_destinations :: destinations where
  "null_destinations = \<lparr>coefficients_p = None, eval_p = None, evec_column_p = None\<rparr>"

definition fit_params ::
  "(mat \<Rightarrow> vec \<Rightarrow> vec) \<Rightarrow> (mat \<Rightarrow> double list \<times> double list list) \<Rightarrow>
   (double list \<times> double list list \<Rightarrow> double list \<times> double list list) \<Rightarrow>
   point list \<Rightarrow> EllipsoidType \<Rightarrow> Parameters \<times> destinations" where
  "fit_params bdcSvd_solve EigenSolver leastRotationAngle data ty =
    fit bdcSvd_solve EigenSolver leastRotationAngle data null_destinations ty"

definition fit_coefficients ::
  "(mat \<Rightarrow> vec \<Rightarrow> vec) \<Rightarrow> (mat \<Rightarrow> double list \<times> double list list) \<Rightarrow>
   (double list \<times> double list list \<Rightarrow> double list \<times> double list list) \<Rightarrow>
   point list \<Rightarrow> vec option \<Rightarrow> EllipsoidType \<Rightarrow> Parameters \<times> destinations" where
  "fit_coefficients bdcSvd_solve EigenSolver leastRotationAngle data coefficients ty =
    fit bdcSvd_solve EigenSolver leastRotationAngle data
      (null_destinations\<lparr>coefficients_p := coefficients\<rparr>) ty"

definition fit_eigen ::
  "(mat \<Rightarrow> vec \<Rightarrow> vec) \<Rightarrow> (mat \<Rightarrow> double list \<times> double list list) \<Rightarrow>
   (double list \<times> double list list \<Rightarrow> double list \<times> double list list) \<Rightarrow>
   point list \<Rightarrow> double list option \<Rightarrow> double list list option \<Rightarrow> EllipsoidType \<Rightarrow>
   Parameters \<times> destinations" where
  "fit_eigen bdcSvd_solve EigenSolver leastRotationAngle data eval evec_column ty =
    fit bdcSvd_solve EigenSolver leastRotationAngle data
      (null_destinations\<lparr>eval_p := eval, evec_column_p := evec_column\<rparr>) ty"

section \<open>What the specification says, as definitions\<close>

text \<open>
  The row of the design matrix that belongs to one point, variant by variant: the
  combinations of squares, the doubled cross terms, the doubled coordinates and the
  constant one.
\<close>

fun design_row :: "EllipsoidType \<Rightarrow> point \<Rightarrow> vec" where
  "design_row Arbitrary (x, y, z) =
     [x * x + y * y - 2 * (z * z), x * x + z * z - 2 * (y * y),
      2 * (x * y), 2 * (x * z), 2 * (y * z), 2 * x, 2 * y, 2 * z, 1]"
| "design_row XYEqual (x, y, z) =
     [x * x + y * y - 2 * (z * z),
      2 * (x * y), 2 * (x * z), 2 * (y * z), 2 * x, 2 * y, 2 * z, 1]"
| "design_row XZEqual (x, y, z) =
     [x * x + z * z - 2 * (y * y),
      2 * (x * y), 2 * (x * z), 2 * (y * z), 2 * x, 2 * y, 2 * z, 1]"
| "design_row Sphere (x, y, z) = [2 * x, 2 * y, 2 * z, 1]"
| "design_row Aligned (x, y, z) =
     [x * x + y * y - 2 * (z * z), x * x + z * z - 2 * (y * y), 2 * x, 2 * y, 2 * z, 1]"
| "design_row AlignedXYEqual (x, y, z) =
     [x * x + y * y - 2 * (z * z), 2 * x, 2 * y, 2 * z, 1]"
| "design_row AlignedXZEqual (x, y, z) =
     [x * x + z * z - 2 * (y * y), 2 * x, 2 * y, 2 * z, 1]"

text \<open>The first \<open>n\<close> rows of a matrix stored by columns.\<close>

definition rows_of :: "nat \<Rightarrow> dmat \<Rightarrow> real option list list" where
  "rows_of n D = map (\<lambda>i. map (\<lambda>c. c ! i) D) [0..<n]"

text \<open>
  The constraints of each variant on the coefficients \<open>(A, B, C, D, E, F, \<dots>)\<close>: equal
  quadratic coefficients, and cross terms \<open>D\<close>, \<open>E\<close>, \<open>F\<close> that vanish.
\<close>

fun symmetry_constraint :: "EllipsoidType \<Rightarrow> vec \<Rightarrow> bool" where
  "symmetry_constraint Arbitrary v = True"
| "symmetry_constraint XYEqual v = (v ! 0 = v ! 1)"
| "symmetry_constraint XZEqual v = (v ! 0 = v ! 2)"
| "symmetry_constraint Sphere v =
     (v ! 0 = v ! 1 \<and> v ! 1 = v ! 2 \<and> v ! 3 = 0 \<and> v ! 4 = 0 \<and> v ! 5 = 0)"
| "symmetry_constraint Aligned v = (v ! 3 = 0 \<and> v ! 4 = 0 \<and> v ! 5 = 0)"
| "symmetry_constraint AlignedXYEqual v = (v ! 3 = 0 \<and> v ! 4 = 0 \<and> v ! 5 = 0)"
| "symmetry_constraint AlignedXZEqual v = (v ! 3 = 0 \<and> v ! 4 = 0 \<and> v ! 5 = 0)"

text \<open>An eigenvalue that is not positive: zero of either sign, or below zero.\<close>

fun nonpositive :: "double \<Rightarrow> bool" where
  "nonpositive (Finite x) = (x \<le> 0)"
| "nonpositive NegZero = True"
| "nonpositive NegInf = True"
| "nonpositive PosInf = False"
| "nonpositive NaN = False"

text \<open>
  What the radius of an eigenvalue has to be: NaN for a finite negative number, for the
  negative zero and for NaN; \<open>+\<infinity>\<close> for the positive zero; a positive number or \<open>+\<infinity>\<close> for a
  positive number; zero for \<open>+\<infinity>\<close> and the negative zero for \<open>-\<infinity>\<close>.
\<close>

fun positive_or_inf :: "double \<Rightarrow> bool" where
  "positive_or_inf (Finite y) = (0 < y)"
| "positive_or_inf PosInf = True"
| "positive_or_inf NegZero = False"
| "positive_or_inf NegInf = False"
| "positive_or_inf NaN = False"

fun radius_spec :: "double \<Rightarrow> double \<Rightarrow> bool" where
  "radius_spec (Finite x) r =
     (if x < 0 then r = NaN else if x = 0 then r = PosInf else positive_or_inf r)"
| "radius_spec NegZero r = (r = NaN)"
| "radius_spec PosInf r = (r = Finite 0)"
| "radius_spec NegInf r = (r = NegZero)"
| "radius_spec NaN r = (r = NaN)"

text \<open>
  The sum \<open>A + B + C\<close> of the three quadratic coefficients, when they are finite.
\<close>

definition quadratic_sum :: "double list \<Rightarrow> real option" where
  "quadratic_sum v =
    (if is_finite (v ! 0) \<and> is_finite (v ! 1) \<and> is_finite (v ! 2)
     then Some (val (v ! 0) + val (v ! 1) + val (v ! 2)) else None)"

text \<open>
  No operation of the back-substitution rounds: the entries of \<open>u\<close> that the formulas of
  the variant read are finite, and the exact result of every addition, subtraction and
  multiplication on the way to \<open>v(0)\<close>, \<open>v(1)\<close> and \<open>v(2)\<close> is a double. The variant
  \<open>Sphere\<close> computes nothing.
\<close>

definition no_rounding_general :: "double \<Rightarrow> double \<Rightarrow> bool" where
  "no_rounding_general a b =
    (is_finite a \<and> is_finite b \<and>
     representable (val a + val b) \<and> representable (val a + val b - 1) \<and>
     representable (2 * val b) \<and> representable (val a - 2 * val b) \<and>
     representable (val a - 2 * val b - 1) \<and>
     representable (2 * val a) \<and> representable (val b - 2 * val a) \<and>
     representable (val b - 2 * val a - 1))"

definition no_rounding_equal :: "double \<Rightarrow> bool" where
  "no_rounding_equal a =
    (is_finite a \<and> representable (val a - 1) \<and>
     representable (- 2 * val a) \<and> representable (- 2 * val a - 1))"

fun no_rounding :: "EllipsoidType \<Rightarrow> double list \<Rightarrow> bool" where
  "no_rounding Arbitrary u = no_rounding_general (u ! 0) (u ! 1)"
| "no_rounding XYEqual u = no_rounding_equal (u ! 0)"
| "no_rounding XZEqual u = no_rounding_equal (u ! 0)"
| "no_rounding Sphere u = True"
| "no_rounding Aligned u = no_rounding_general (u ! 0) (u ! 1)"
| "no_rounding AlignedXYEqual u = no_rounding_equal (u ! 0)"
| "no_rounding AlignedXZEqual u = no_rounding_equal (u ! 0)"

section \<open>Auxiliary facts\<close>

lemma list_len3: "length u = 3 \<Longrightarrow> \<exists>a b c. u = [a, b, c]"
  by (auto simp: numeral_eq_Suc length_Suc_conv)

lemma list_len4: "length u = 4 \<Longrightarrow> \<exists>a b c d. u = [a, b, c, d]"
  by (auto simp: numeral_eq_Suc length_Suc_conv)

lemma list_len5: "length u = 5 \<Longrightarrow> \<exists>a b c d e. u = [a, b, c, d, e]"
  by (auto simp: numeral_eq_Suc length_Suc_conv)

lemma list_len6: "length u = 6 \<Longrightarrow> \<exists>a b c d e f. u = [a, b, c, d, e, f]"
  by (auto simp: numeral_eq_Suc length_Suc_conv)

lemma list_len8: "length u = 8 \<Longrightarrow> \<exists>a b c d e f g h. u = [a, b, c, d, e, f, g, h]"
  by (auto simp: numeral_eq_Suc length_Suc_conv)

lemma list_len9: "length u = 9 \<Longrightarrow> \<exists>a b c d e f g h i. u = [a, b, c, d, e, f, g, h, i]"
  by (auto simp: numeral_eq_Suc length_Suc_conv)

lemma replicate_numerals:
  "replicate 3 x = [x, x, x]"
  "replicate 4 x = [x, x, x, x]"
  "replicate 5 x = [x, x, x, x, x]"
  "replicate 6 x = [x, x, x, x, x, x]"
  "replicate 8 x = [x, x, x, x, x, x, x, x]"
  "replicate 9 x = [x, x, x, x, x, x, x, x, x]"
  "replicate 10 x = [x, x, x, x, x, x, x, x, x, x]"
  by (simp_all add: numeral_eq_Suc)

lemma upt_4: "[0..<4] = [0, 1, 2, 3]"
  by (simp add: upt_rec)

lemma stored_map_Some: "stored (map Some xs) = xs"
  by (simp add: stored_def o_def)

subsection \<open>Columns of the design matrix\<close>

lemma vec_nth:
  "i < length data \<Longrightarrow> col_x data ! i = fst (data ! i)"
  "i < length data \<Longrightarrow> col_y data ! i = fst (snd (data ! i))"
  "i < length data \<Longrightarrow> col_z data ! i = snd (snd (data ! i))"
  "i < length a \<Longrightarrow> i < length b \<Longrightarrow> cwiseProduct a b ! i = a ! i * b ! i"
  "i < length a \<Longrightarrow> i < length b \<Longrightarrow> vplus a b ! i = a ! i + b ! i"
  "i < length a \<Longrightarrow> i < length b \<Longrightarrow> vminus a b ! i = a ! i - b ! i"
  "i < length a \<Longrightarrow> scale k a ! i = k * a ! i"
  by (simp_all add: col_x_def col_y_def col_z_def cwiseProduct_def vplus_def vminus_def
      scale_def split_beta)

lemma vec_lengths:
  "length (col_x data) = length data"
  "length (col_y data) = length data"
  "length (col_z data) = length data"
  "length (cwiseProduct a b) = min (length a) (length b)"
  "length (vplus a b) = min (length a) (length b)"
  "length (vminus a b) = min (length a) (length b)"
  "length (scale k a) = length a"
  by (simp_all add: col_x_def col_y_def col_z_def cwiseProduct_def vplus_def vminus_def
      scale_def)

lemmas design_defs =
  design_matrix_def Let_def resize_def set_col_def set_col_ones_def replicate_numerals

lemma design_matrix_lengths:
  "map length (design_matrix ty data) = replicate (design_cols ty) (length data)"
  by (cases ty) (simp_all add: design_defs vec_lengths)

lemma design_matrix_row:
  assumes "i < length data"
  shows "map (\<lambda>c. c ! i) (design_matrix ty data) = map Some (design_row ty (data ! i))"
proof -
  obtain x y z where p: "data ! i = (x, y, z)"
    by (cases "data ! i") auto
  show ?thesis
    using assms by (cases ty) (simp_all add: p design_defs vec_nth vec_lengths)
qed

text \<open>The right-hand side, point by point.\<close>

lemma d2_pointwise: "d2 data = map (\<lambda>(x, y, z). x * x + y * y + z * z) data"
  by (rule nth_equalityI)
    (simp_all add: d2_def Let_def vec_nth vec_lengths split_beta)

subsection \<open>The back-substitution, variant by variant\<close>

lemmas write_defs =
  back_substitution_def assign_def assign_segment_def segment_def enumerate_eq_zip
  replicate_numerals upt_rec

lemma back_substitution_Arbitrary:
  "back_substitution Arbitrary [a, b, c, d, e, f, g, h, i] =
     map Some [a + b - 1, a - 2 * b - 1, b - 2 * a - 1, c, d, e, f, g, h, i]"
  by (simp add: write_defs)

lemma back_substitution_XYEqual:
  "back_substitution XYEqual [a, c, d, e, f, g, h, i] =
     map Some [a - 1, a - 1, - 2 * a - 1, c, d, e, f, g, h, i]"
  by (simp add: write_defs)

lemma back_substitution_XZEqual:
  "back_substitution XZEqual [a, c, d, e, f, g, h, i] =
     map Some [a - 1, - 2 * a - 1, a - 1, c, d, e, f, g, h, i]"
  by (simp add: write_defs)

lemma back_substitution_Sphere:
  "back_substitution Sphere [f, g, h, i] = map Some [- 1, - 1, - 1, 0, 0, 0, f, g, h, i]"
  by (simp add: write_defs)

lemma back_substitution_Aligned:
  "back_substitution Aligned [a, b, f, g, h, i] =
     map Some [a + b - 1, a - 2 * b - 1, b - 2 * a - 1, 0, 0, 0, f, g, h, i]"
  by (simp add: write_defs)

lemma back_substitution_AlignedXYEqual:
  "back_substitution AlignedXYEqual [a, f, g, h, i] =
     map Some [a - 1, a - 1, - 2 * a - 1, 0, 0, 0, f, g, h, i]"
  by (simp add: write_defs)

lemma back_substitution_AlignedXZEqual:
  "back_substitution AlignedXZEqual [a, f, g, h, i] =
     map Some [a - 1, - 2 * a - 1, a - 1, 0, 0, 0, f, g, h, i]"
  by (simp add: write_defs)

lemmas back_substitution_eqs =
  back_substitution_Arbitrary back_substitution_XYEqual back_substitution_XZEqual
  back_substitution_Sphere back_substitution_Aligned back_substitution_AlignedXYEqual
  back_substitution_AlignedXZEqual

text \<open>
  For a solution \<open>u\<close> of the length of its variant, all ten entries are written, the
  first three add up to \<open>- 3\<close>, and the constraints of the variant hold.
\<close>

lemma back_substitution_closed_form:
  assumes "length u = design_cols ty"
  shows "\<exists>v. back_substitution ty u = map Some v \<and> length v = 10 \<and>
           v ! 0 + v ! 1 + v ! 2 = - 3 \<and> symmetry_constraint ty v"
proof (cases ty)
  case Arbitrary
  with assms obtain a b c d e f g h i where "u = [a, b, c, d, e, f, g, h, i]"
    using list_len9 [of u] by auto
  with Arbitrary show ?thesis
    by (intro exI [of _ "[a + b - 1, a - 2 * b - 1, b - 2 * a - 1, c, d, e, f, g, h, i]"])
      (simp add: back_substitution_eqs)
next
  case XYEqual
  with assms obtain a c d e f g h i where "u = [a, c, d, e, f, g, h, i]"
    using list_len8 [of u] by auto
  with XYEqual show ?thesis
    by (intro exI [of _ "[a - 1, a - 1, - 2 * a - 1, c, d, e, f, g, h, i]"])
      (simp add: back_substitution_eqs)
next
  case XZEqual
  with assms obtain a c d e f g h i where "u = [a, c, d, e, f, g, h, i]"
    using list_len8 [of u] by auto
  with XZEqual show ?thesis
    by (intro exI [of _ "[a - 1, - 2 * a - 1, a - 1, c, d, e, f, g, h, i]"])
      (simp add: back_substitution_eqs)
next
  case Sphere
  with assms obtain f g h i where "u = [f, g, h, i]"
    using list_len4 [of u] by auto
  with Sphere show ?thesis
    by (intro exI [of _ "[- 1, - 1, - 1, 0, 0, 0, f, g, h, i]"])
      (simp add: back_substitution_eqs)
next
  case Aligned
  with assms obtain a b f g h i where "u = [a, b, f, g, h, i]"
    using list_len6 [of u] by auto
  with Aligned show ?thesis
    by (intro exI [of _ "[a + b - 1, a - 2 * b - 1, b - 2 * a - 1, 0, 0, 0, f, g, h, i]"])
      (simp add: back_substitution_eqs)
next
  case AlignedXYEqual
  with assms obtain a f g h i where "u = [a, f, g, h, i]"
    using list_len5 [of u] by auto
  with AlignedXYEqual show ?thesis
    by (intro exI [of _ "[a - 1, a - 1, - 2 * a - 1, 0, 0, 0, f, g, h, i]"])
      (simp add: back_substitution_eqs)
next
  case AlignedXZEqual
  with assms obtain a f g h i where "u = [a, f, g, h, i]"
    using list_len5 [of u] by auto
  with AlignedXZEqual show ?thesis
    by (intro exI [of _ "[a - 1, - 2 * a - 1, a - 1, 0, 0, 0, f, g, h, i]"])
      (simp add: back_substitution_eqs)
qed

text \<open>
  The two aligned variants with equal axes also have the equal quadratic coefficients
  their names announce.
\<close>

lemma back_substitution_aligned_equal:
  assumes "length u = 5"
  shows "stored (back_substitution AlignedXYEqual u) ! 0 =
           stored (back_substitution AlignedXYEqual u) ! 1"
    and "stored (back_substitution AlignedXZEqual u) ! 0 =
           stored (back_substitution AlignedXZEqual u) ! 2"
proof -
  from assms obtain a f g h i where "u = [a, f, g, h, i]"
    using list_len5 [of u] by auto
  then show "stored (back_substitution AlignedXYEqual u) ! 0 =
      stored (back_substitution AlignedXYEqual u) ! 1"
    and "stored (back_substitution AlignedXZEqual u) ! 0 =
      stored (back_substitution AlignedXZEqual u) ! 2"
    by (simp_all add: back_substitution_eqs stored_def)
qed

subsection \<open>Matrices of size four\<close>

lemmas matrix_defs =
  mtranspose_def mcol_def mat_mul_def mat_vec_def dot_def block33_def identity4_def
  assign_row_block_def translation_def translated_def segment_def enumerate_eq_zip upt_4

lemmas term_defs = term_xy_def term_xz_def term_yz_def term_x_def term_y_def term_z_def

lemma quadric_matrix_transpose: "mtranspose (quadric_matrix v) = quadric_matrix v"
  by (simp add: quadric_matrix_def matrix_defs)

text \<open>The matrix represents the form: \<open>(x, y, z, 1) A (x, y, z, 1)\<^sup>T\<close> is the quadric.\<close>

lemma quadric_matrix_form:
  "dot [x, y, z, 1] (mat_vec (quadric_matrix v) [x, y, z, 1]) = quadric v (x, y, z)"
  by (simp add: quadric_matrix_def quadric_def matrix_defs term_defs algebra_simps)

text \<open>
  The translation of any \<open>4 \<times> 4\<close> matrix: the last row and column change, the block of
  the first three rows and columns does not.
\<close>

lemma translated_block:
  "block33 (translated [[a00, a01, a02, a03], [a10, a11, a12, a13], [a20, a21, a22, a23],
       [a30, a31, a32, a33]] [c0, c1, c2]) =
   [[a00, a01, a02], [a10, a11, a12], [a20, a21, a22]]"
  by (simp add: matrix_defs Let_def)

subsection \<open>Rounding\<close>

lemma round_even_of_int: "round_even (of_int k) = k"
  by (simp add: round_even_def)

lemma round_even_bounds: "\<lfloor>t\<rfloor> \<le> round_even t \<and> round_even t \<le> \<lceil>t\<rceil>"
  unfolding round_even_def Let_def
  by (auto simp: ceiling_altdef)

lemma two_powi_less_iff: "(2::real) powi a < 2 powi b \<longleftrightarrow> a < b"
proof
  assume less: "(2::real) powi a < 2 powi b"
  show "a < b"
  proof (rule ccontr)
    assume "\<not> a < b"
    then have "b \<le> a" by simp
    then have "(2::real) powi b \<le> 2 powi a"
      by (rule power_int_increasing) simp
    with less show False by simp
  qed
next
  assume "a < b"
  then show "(2::real) powi a < 2 powi b"
    by (rule power_int_strict_increasing) simp
qed

lemma two_powi_le_iff: "(2::real) powi a \<le> 2 powi b \<longleftrightarrow> a \<le> b"
  using two_powi_less_iff [of b a] by (simp add: not_less [symmetric])

text \<open>The exponent of \<open>x\<close> is the \<open>e\<close> with \<open>2\<^sup>e \<le> \<bar>x\<bar> < 2\<^sup>e\<^sup>+\<^sup>1\<close>.\<close>

lemma floor_log2:
  assumes "x \<noteq> 0" "2 powi e \<le> \<bar>x\<bar>" "\<bar>x\<bar> < 2 powi (e + 1)"
  shows "\<lfloor>log 2 \<bar>x\<bar>\<rfloor> = e"
proof -
  have "(2::real) powr (of_int e) = 2 powi e" "(2::real) powr (of_int e + 1) = 2 powi (e + 1)"
    using powr_real_of_int' [of 2 e] powr_real_of_int' [of 2 "e + 1"] by simp_all
  with assms show ?thesis
    by (simp add: floor_log_eq_powr_iff)
qed

lemma log2_lower:
  assumes "x \<noteq> 0"
  shows "2 powi \<lfloor>log 2 \<bar>x\<bar>\<rfloor> \<le> \<bar>x\<bar>" and "\<bar>x\<bar> < 2 powi (\<lfloor>log 2 \<bar>x\<bar>\<rfloor> + 1)"
proof -
  define e where "e = \<lfloor>log 2 \<bar>x\<bar>\<rfloor>"
  have pos: "0 < \<bar>x\<bar>" using assms by simp
  have "2 powr (of_int e) \<le> \<bar>x\<bar> \<and> \<bar>x\<bar> < 2 powr (of_int e + 1)"
    using floor_log_eq_powr_iff [OF pos, of 2 e] by (simp add: e_def)
  moreover have "(2::real) powr (of_int e) = 2 powi e"
    "(2::real) powr (of_int e + 1) = 2 powi (e + 1)"
    using powr_real_of_int' [of 2 e] powr_real_of_int' [of 2 "e + 1"] by simp_all
  ultimately show "2 powi \<lfloor>log 2 \<bar>x\<bar>\<rfloor> \<le> \<bar>x\<bar>" and "\<bar>x\<bar> < 2 powi (\<lfloor>log 2 \<bar>x\<bar>\<rfloor> + 1)"
    by (simp_all add: e_def)
qed

lemma min_subnormal_pos: "0 < min_subnormal"
  by (simp add: min_subnormal_def)

lemma min_subnormal_le_powi: "- 1074 \<le> p \<Longrightarrow> min_subnormal \<le> 2 powi p"
  unfolding min_subnormal_def by (simp only: two_powi_le_iff)

lemma exponent_ge: "- 1074 \<le> exponent x - 52"
  by (simp add: exponent_def)

text \<open>The reals \<open>m \<cdot> 2\<^sup>q\<close> with \<open>\<bar>m\<bar> < 2\<^sup>5\<^sup>3\<close> and \<open>q\<close> in range are left as they are.\<close>

lemma round_real_fixed:
  assumes "\<bar>m\<bar> < 2 ^ 53" and "- 1074 \<le> q"
  shows "round_real (of_int m * 2 powi q) = of_int m * 2 powi q"
proof (cases "m = 0")
  case True
  then show ?thesis by (simp add: round_real_def)
next
  case False
  define x :: real where "x = of_int m * 2 powi q"
  have x0: "x \<noteq> 0" using False by (simp add: x_def)
  define e where "e = \<lfloor>log 2 \<bar>x\<bar>\<rfloor>"
  define p where "p = exponent x - 52"
  have "2 powi e \<le> \<bar>x\<bar>" unfolding e_def by (rule log2_lower [OF x0])
  also have "\<bar>x\<bar> = \<bar>of_int m\<bar> * 2 powi q" by (simp add: x_def abs_mult)
  also have "\<dots> < 2 ^ 53 * 2 powi q"
  proof -
    have "real_of_int \<bar>m\<bar> < real_of_int (2 ^ 53)"
      using assms(1) by (simp only: of_int_less_iff)
    then have "\<bar>real_of_int m\<bar> < 2 ^ 53" by simp
    then show ?thesis by simp
  qed
  also have "\<dots> = 2 powi (53 + q)" by (simp add: power_int_add)
  finally have "e < 53 + q" by (simp add: two_powi_less_iff)
  with assms(2) have le: "p \<le> q"
    by (simp add: p_def exponent_def e_def [symmetric])
  define d where "d = nat (q - p)"
  have q: "q = p + int d" using le by (simp add: d_def)
  have xp: "x = of_int (m * 2 ^ d) * 2 powi p"
    unfolding x_def by (subst q) (simp add: power_int_add)
  then have "x / 2 powi p = of_int (m * 2 ^ d)"
    by simp
  then have rr: "round_real x = of_int (m * 2 ^ d) * 2 powi p"
    using x0 unfolding round_real_def p_def [symmetric] by (simp only: round_even_of_int if_False)
  have "round_real x = x" unfolding rr by (rule xp [symmetric])
  then show ?thesis unfolding x_def .
qed

lemma round64_fixed:
  assumes "\<bar>m\<bar> < 2 ^ 53" and "- 1074 \<le> q" and "q \<le> 971"
  shows "round64 (of_int m * 2 powi q) = Finite (of_int m * 2 powi q)"
proof -
  define x :: real where "x = of_int m * 2 powi q"
  have "real_of_int \<bar>m\<bar> < real_of_int (2 ^ 53)"
    using assms(1) by (simp only: of_int_less_iff)
  then have m: "\<bar>real_of_int m\<bar> < 2 ^ 53" by simp
  have "(2::real) powi q \<le> 2 powi 971"
    using assms(3) by (simp only: two_powi_le_iff)
  then have "\<bar>real_of_int m\<bar> * 2 powi q < 2 ^ 53 * 2 powi 971"
    using m by (intro mult_less_le_imp_less) simp_all
  also have "(2::real) ^ 53 * 2 powi 971 = overflow_bound" by (simp add: overflow_bound_def)
  finally have "\<bar>x\<bar> < overflow_bound" by (simp add: x_def abs_mult)
  moreover have "round_real x = x" unfolding x_def by (rule round_real_fixed [OF assms(1,2)])
  ultimately have "round64 x = Finite x"
    unfolding round64_def Let_def by (auto simp: abs_less_iff)
  then show ?thesis unfolding x_def .
qed

lemma representable_powi:
  "- 1074 \<le> q \<Longrightarrow> q \<le> 971 \<Longrightarrow> \<bar>m\<bar> < 2 ^ 53 \<Longrightarrow> representable (real_of_int m * 2 powi q)"
  using round64_fixed [of m q] by (simp add: representable_def)

lemma representable_int: "\<bar>m\<bar> < 2 ^ 53 \<Longrightarrow> representable (real_of_int m)"
  using round64_fixed [of m 0] by (simp add: representable_def)

lemma representable_bound: "representable x \<Longrightarrow> \<bar>x\<bar> < overflow_bound"
  by (auto simp: representable_def round64_def Let_def split: if_splits)

text \<open>Rounding where the exponent is known.\<close>

lemma round_real_at:
  assumes "x \<noteq> 0" "2 powi e \<le> \<bar>x\<bar>" "\<bar>x\<bar> < 2 powi (e + 1)" "- 1022 \<le> e"
  shows "round_real x = of_int (round_even (x / 2 powi (e - 52))) * 2 powi (e - 52)"
  using assms floor_log2 [OF assms(1-3)] by (simp add: round_real_def exponent_def)

text \<open>A real of at least the least positive double does not round to zero.\<close>

lemma powi_exponent_le:
  assumes "x \<noteq> 0"
  shows "2 powi (exponent x - 52) \<le> max \<bar>x\<bar> min_subnormal"
proof (cases "- 1022 \<le> \<lfloor>log 2 \<bar>x\<bar>\<rfloor>")
  case True
  then have "exponent x - 52 \<le> \<lfloor>log 2 \<bar>x\<bar>\<rfloor>" by (simp add: exponent_def)
  then have "(2::real) powi (exponent x - 52) \<le> 2 powi \<lfloor>log 2 \<bar>x\<bar>\<rfloor>"
    by (simp only: two_powi_le_iff)
  also have "\<dots> \<le> \<bar>x\<bar>" by (rule log2_lower [OF assms])
  finally show ?thesis by simp
next
  case False
  then have "exponent x - 52 = - 1074" by (simp add: exponent_def)
  then have "(2::real) powi (exponent x - 52) = min_subnormal"
    by (simp only: min_subnormal_def)
  then show ?thesis by simp
qed

lemma round_real_lower:
  assumes "min_subnormal \<le> z"
  shows "min_subnormal \<le> round_real z"
proof -
  have pos: "0 < z" using assms min_subnormal_pos by linarith
  define s :: real where "s = 2 powi (exponent z - 52)"
  have s: "0 < s" "min_subnormal \<le> s"
    using min_subnormal_le_powi [OF exponent_ge [of z]] by (simp_all add: s_def)
  have "s \<le> z" using powi_exponent_le [of z] pos assms by (simp add: s_def)
  then have "1 \<le> z / s" using s by (simp add: le_divide_eq)
  then have "1 \<le> \<lfloor>z / s\<rfloor>" by simp
  with round_even_bounds [of "z / s"] have "1 \<le> round_even (z / s)" by linarith
  then have "real_of_int 1 \<le> real_of_int (round_even (z / s))" by (simp only: of_int_le_iff)
  then have "1 * s \<le> real_of_int (round_even (z / s)) * s"
    using s by (intro mult_right_mono) simp_all
  moreover have "round_real z = real_of_int (round_even (z / s)) * s"
    using pos by (simp add: round_real_def s_def)
  ultimately show ?thesis using s by linarith
qed

lemma round_real_upper:
  assumes "z \<le> - min_subnormal"
  shows "round_real z \<le> - min_subnormal"
proof -
  have neg: "z < 0" using assms min_subnormal_pos by linarith
  define s :: real where "s = 2 powi (exponent z - 52)"
  have s: "0 < s" "min_subnormal \<le> s"
    using min_subnormal_le_powi [OF exponent_ge [of z]] by (simp_all add: s_def)
  have "s \<le> - z" using powi_exponent_le [of z] neg assms by (simp add: s_def)
  then have "z / s \<le> - 1" using s by (simp add: divide_le_eq)
  then have "\<lceil>z / s\<rceil> \<le> - 1" by (simp add: ceiling_le_iff)
  with round_even_bounds [of "z / s"] have "round_even (z / s) \<le> - 1" by linarith
  then have "real_of_int (round_even (z / s)) \<le> real_of_int (- 1)" by (simp only: of_int_le_iff)
  then have "real_of_int (round_even (z / s)) * s \<le> (- 1) * s"
    using s by (intro mult_right_mono) simp_all
  moreover have "round_real z = real_of_int (round_even (z / s)) * s"
    using neg by (simp add: round_real_def s_def)
  ultimately show ?thesis using s by linarith
qed

lemma round64_positive:
  assumes "min_subnormal \<le> z"
  shows "positive_or_inf (round64 z)"
  using round_real_lower [OF assms] min_subnormal_pos
  by (simp add: round64_def Let_def)

lemma round64_negative:
  assumes "z \<le> - min_subnormal"
  shows "round64 z = NegInf \<or> (\<exists>y<0. round64 z = Finite y)"
proof -
  have "round_real z < 0" "0 < overflow_bound"
    using round_real_upper [OF assms] min_subnormal_pos by (simp_all add: overflow_bound_def)
  then show ?thesis by (simp add: round64_def Let_def)
qed

lemma inverse_overflow_bound: "1 / overflow_bound = 2 powi (- 1024)"
  by (simp add: overflow_bound_def power_int_minus inverse_eq_divide)

lemma min_subnormal_le_inverse:
  assumes "0 < x" "x < overflow_bound"
  shows "min_subnormal \<le> 1 / x"
proof -
  have "min_subnormal \<le> 2 powi (- 1024)" by (rule min_subnormal_le_powi) simp
  also have "\<dots> = 1 / overflow_bound" by (simp only: inverse_overflow_bound)
  also have "\<dots> \<le> 1 / x" using assms by (simp add: frac_le)
  finally show ?thesis .
qed

lemma min_subnormal_le_sqrt:
  assumes "min_subnormal \<le> y"
  shows "min_subnormal \<le> sqrt y"
proof (cases "y \<le> 1")
  case True
  have "0 < y" using assms min_subnormal_pos by linarith
  with True have "y * y \<le> y * 1" by (intro mult_left_mono) simp_all
  then have "y\<^sup>2 \<le> y" by (simp add: power2_eq_square)
  then have "y \<le> sqrt y" using \<open>0 < y\<close> by (simp add: real_le_rsqrt)
  with assms show ?thesis by linarith
next
  case False
  then have "1 \<le> sqrt y" by simp
  moreover have "min_subnormal \<le> 1"
    unfolding min_subnormal_def using two_powi_le_iff [of "- 1074" 0] by simp
  ultimately show ?thesis by linarith
qed

subsection \<open>Inverse and square root\<close>

lemma round64_zero: "round64 0 = Finite 0"
  by (simp add: round64_def round_real_def overflow_bound_def)

lemma radius_of_double:
  assumes "is_double e"
  shows "radius_spec e (sqrt_double (inverse_double e))"
proof (cases e)
  case (Finite x)
  with assms have bound: "\<bar>x\<bar> < overflow_bound"
    by (simp add: representable_bound)
  consider "x < 0" | "x = 0" | "0 < x" by linarith
  then show ?thesis
  proof cases
    case 1
    then have "- x < overflow_bound" "0 < - x" using bound by simp_all
    then have "min_subnormal \<le> 1 / (- x)" by (intro min_subnormal_le_inverse)
    then have "1 / x \<le> - min_subnormal" by simp
    from round64_negative [OF this] have "sqrt_double (round64 (1 / x)) = NaN"
      by auto
    with 1 Finite show ?thesis by simp
  next
    case 2
    with Finite show ?thesis by simp
  next
    case 3
    then have "min_subnormal \<le> 1 / x" using bound by (intro min_subnormal_le_inverse) simp_all
    then have inv: "min_subnormal \<le> round_real (1 / x)" by (rule round_real_lower)
    have "positive_or_inf (sqrt_double (round64 (1 / x)))"
    proof (cases "overflow_bound \<le> round_real (1 / x)")
      case True
      then show ?thesis by (simp add: round64_def)
    next
      case False
      with inv min_subnormal_pos have eq: "round64 (1 / x) = Finite (round_real (1 / x))"
        by (simp add: round64_def Let_def overflow_bound_def)
      have "positive_or_inf (round64 (sqrt (round_real (1 / x))))"
        by (intro round64_positive min_subnormal_le_sqrt inv)
      with inv min_subnormal_pos show ?thesis by (simp add: eq)
    qed
    with 3 Finite show ?thesis by simp
  qed
qed (simp_all add: round64_zero)

subsection \<open>Operations that do not round\<close>

lemma double_neg_exact:
  "is_finite a \<Longrightarrow> is_finite (double_neg a) \<and> val (double_neg a) = - val a"
  by (cases a) simp_all

lemma double_add_exact:
  assumes "is_finite a" "is_finite b" "representable (val a + val b)"
  shows "is_finite (double_add a b) \<and> val (double_add a b) = val a + val b"
  using assms by (cases a; cases b) (simp_all add: double_add_def representable_def)

lemma double_sub_exact:
  assumes "is_finite a" "is_finite b" "representable (val a - val b)"
  shows "is_finite (double_sub a b) \<and> val (double_sub a b) = val a - val b"
  unfolding double_sub_def
  using double_add_exact [of a "double_neg b"] double_neg_exact [of b] assms by simp

lemma double_mul_exact:
  assumes "is_finite a" "is_finite b" "representable (val a * val b)"
  shows "is_finite (double_mul a b) \<and> val (double_mul a b) = val a * val b"
  using assms by (cases a; cases b) (simp_all add: double_mul_def representable_def)

lemma general_exact:
  assumes "no_rounding_general a b"
  shows "is_finite (double_sub (double_add a b) (Finite 1)) \<and>
         val (double_sub (double_add a b) (Finite 1)) = val a + val b - 1"
    and "is_finite (double_sub (double_sub a (double_mul (Finite 2) b)) (Finite 1)) \<and>
         val (double_sub (double_sub a (double_mul (Finite 2) b)) (Finite 1)) =
           val a - 2 * val b - 1"
    and "is_finite (double_sub (double_sub b (double_mul (Finite 2) a)) (Finite 1)) \<and>
         val (double_sub (double_sub b (double_mul (Finite 2) a)) (Finite 1)) =
           val b - 2 * val a - 1"
proof -
  from assms have fin: "is_finite a" "is_finite b"
    and r: "representable (val a + val b)" "representable (val a + val b - 1)"
      "representable (2 * val b)" "representable (val a - 2 * val b)"
      "representable (val a - 2 * val b - 1)"
      "representable (2 * val a)" "representable (val b - 2 * val a)"
      "representable (val b - 2 * val a - 1)"
    by (simp_all add: no_rounding_general_def)
  have s: "is_finite (double_add a b) \<and> val (double_add a b) = val a + val b"
    using fin r(1) by (rule double_add_exact)
  show "is_finite (double_sub (double_add a b) (Finite 1)) \<and>
      val (double_sub (double_add a b) (Finite 1)) = val a + val b - 1"
    using s r(2) double_sub_exact [of "double_add a b" "Finite 1"] by simp
  have mb: "is_finite (double_mul (Finite 2) b) \<and> val (double_mul (Finite 2) b) = 2 * val b"
    using fin r(3) double_mul_exact [of "Finite 2" b] by simp
  have db: "is_finite (double_sub a (double_mul (Finite 2) b)) \<and>
      val (double_sub a (double_mul (Finite 2) b)) = val a - 2 * val b"
    using fin mb r(4) double_sub_exact [of a "double_mul (Finite 2) b"] by simp
  show "is_finite (double_sub (double_sub a (double_mul (Finite 2) b)) (Finite 1)) \<and>
      val (double_sub (double_sub a (double_mul (Finite 2) b)) (Finite 1)) =
        val a - 2 * val b - 1"
    using db r(5) double_sub_exact [of "double_sub a (double_mul (Finite 2) b)" "Finite 1"]
    by simp
  have ma: "is_finite (double_mul (Finite 2) a) \<and> val (double_mul (Finite 2) a) = 2 * val a"
    using fin r(6) double_mul_exact [of "Finite 2" a] by simp
  have da: "is_finite (double_sub b (double_mul (Finite 2) a)) \<and>
      val (double_sub b (double_mul (Finite 2) a)) = val b - 2 * val a"
    using fin ma r(7) double_sub_exact [of b "double_mul (Finite 2) a"] by simp
  show "is_finite (double_sub (double_sub b (double_mul (Finite 2) a)) (Finite 1)) \<and>
      val (double_sub (double_sub b (double_mul (Finite 2) a)) (Finite 1)) =
        val b - 2 * val a - 1"
    using da r(8) double_sub_exact [of "double_sub b (double_mul (Finite 2) a)" "Finite 1"]
    by simp
qed

lemma equal_exact:
  assumes "no_rounding_equal a"
  shows "is_finite (double_sub a (Finite 1)) \<and> val (double_sub a (Finite 1)) = val a - 1"
    and "is_finite (double_sub (double_mul (Finite (- 2)) a) (Finite 1)) \<and>
         val (double_sub (double_mul (Finite (- 2)) a) (Finite 1)) = - 2 * val a - 1"
proof -
  from assms have fin: "is_finite a"
    and r: "representable (val a - 1)" "representable (- 2 * val a)"
      "representable (- 2 * val a - 1)"
    by (simp_all add: no_rounding_equal_def)
  show "is_finite (double_sub a (Finite 1)) \<and> val (double_sub a (Finite 1)) = val a - 1"
    using fin r(1) double_sub_exact [of a "Finite 1"] by simp
  have m: "is_finite (double_mul (Finite (- 2)) a) \<and>
      val (double_mul (Finite (- 2)) a) = - 2 * val a"
    using fin r(2) double_mul_exact [of "Finite (- 2)" a] by simp
  show "is_finite (double_sub (double_mul (Finite (- 2)) a) (Finite 1)) \<and>
      val (double_sub (double_mul (Finite (- 2)) a) (Finite 1)) = - 2 * val a - 1"
    using m r(3) double_sub_exact [of "double_mul (Finite (- 2)) a" "Finite 1"] by simp
qed

subsection \<open>The back-substitution in doubles, variant by variant\<close>

lemmas write_double_defs =
  back_substitution_double_def assign_def assign_segment_def segment_def enumerate_eq_zip
  replicate_numerals upt_rec

lemma back_substitution_double_Arbitrary:
  "back_substitution_double Arbitrary [a, b, c, d, e, f, g, h, i] =
     map Some [double_sub (double_add a b) (Finite 1),
       double_sub (double_sub a (double_mul (Finite 2) b)) (Finite 1),
       double_sub (double_sub b (double_mul (Finite 2) a)) (Finite 1), c, d, e, f, g, h, i]"
  by (simp add: write_double_defs)

lemma back_substitution_double_XYEqual:
  "back_substitution_double XYEqual [a, c, d, e, f, g, h, i] =
     map Some [double_sub a (Finite 1), double_sub a (Finite 1),
       double_sub (double_mul (Finite (- 2)) a) (Finite 1), c, d, e, f, g, h, i]"
  by (simp add: write_double_defs)

lemma back_substitution_double_XZEqual:
  "back_substitution_double XZEqual [a, c, d, e, f, g, h, i] =
     map Some [double_sub a (Finite 1), double_sub (double_mul (Finite (- 2)) a) (Finite 1),
       double_sub a (Finite 1), c, d, e, f, g, h, i]"
  by (simp add: write_double_defs)

lemma back_substitution_double_Sphere:
  "back_substitution_double Sphere [f, g, h, i] =
     map Some [Finite (- 1), Finite (- 1), Finite (- 1), Finite 0, Finite 0, Finite 0,
       f, g, h, i]"
  by (simp add: write_double_defs)

lemma back_substitution_double_Aligned:
  "back_substitution_double Aligned [a, b, f, g, h, i] =
     map Some [double_sub (double_add a b) (Finite 1),
       double_sub (double_sub a (double_mul (Finite 2) b)) (Finite 1),
       double_sub (double_sub b (double_mul (Finite 2) a)) (Finite 1),
       Finite 0, Finite 0, Finite 0, f, g, h, i]"
  by (simp add: write_double_defs)

lemma back_substitution_double_AlignedXYEqual:
  "back_substitution_double AlignedXYEqual [a, f, g, h, i] =
     map Some [double_sub a (Finite 1), double_sub a (Finite 1),
       double_sub (double_mul (Finite (- 2)) a) (Finite 1),
       Finite 0, Finite 0, Finite 0, f, g, h, i]"
  by (simp add: write_double_defs)

lemma back_substitution_double_AlignedXZEqual:
  "back_substitution_double AlignedXZEqual [a, f, g, h, i] =
     map Some [double_sub a (Finite 1), double_sub (double_mul (Finite (- 2)) a) (Finite 1),
       double_sub a (Finite 1), Finite 0, Finite 0, Finite 0, f, g, h, i]"
  by (simp add: write_double_defs)

lemmas back_substitution_double_eqs =
  back_substitution_double_Arbitrary back_substitution_double_XYEqual
  back_substitution_double_XZEqual back_substitution_double_Sphere
  back_substitution_double_Aligned back_substitution_double_AlignedXYEqual
  back_substitution_double_AlignedXZEqual

text \<open>
  For a solution \<open>u\<close> of the length of its variant, all ten entries are written, and
  the first three add up to \<open>- 3\<close> when no operation rounds.
\<close>

lemma back_substitution_double_cases:
  assumes "length u = design_cols ty"
  shows "\<exists>v. back_substitution_double ty u = map Some v \<and> length v = 10 \<and>
           (no_rounding ty u \<longrightarrow> quadratic_sum v = Some (- 3))"
proof (cases ty)
  case Arbitrary
  with assms obtain a b c d e f g h i where u: "u = [a, b, c, d, e, f, g, h, i]"
    using list_len9 [of u] by auto
  show ?thesis
    unfolding Arbitrary u
    using general_exact [of a b]
    by (intro exI [of _ "[double_sub (double_add a b) (Finite 1),
        double_sub (double_sub a (double_mul (Finite 2) b)) (Finite 1),
        double_sub (double_sub b (double_mul (Finite 2) a)) (Finite 1), c, d, e, f, g, h, i]"])
      (simp add: back_substitution_double_eqs quadratic_sum_def)
next
  case XYEqual
  with assms obtain a c d e f g h i where u: "u = [a, c, d, e, f, g, h, i]"
    using list_len8 [of u] by auto
  show ?thesis
    unfolding XYEqual u
    using equal_exact [of a]
    by (intro exI [of _ "[double_sub a (Finite 1), double_sub a (Finite 1),
        double_sub (double_mul (Finite (- 2)) a) (Finite 1), c, d, e, f, g, h, i]"])
      (simp add: back_substitution_double_eqs quadratic_sum_def)
next
  case XZEqual
  with assms obtain a c d e f g h i where u: "u = [a, c, d, e, f, g, h, i]"
    using list_len8 [of u] by auto
  show ?thesis
    unfolding XZEqual u
    using equal_exact [of a]
    by (intro exI [of _ "[double_sub a (Finite 1), double_sub (double_mul (Finite (- 2)) a) (Finite 1),
        double_sub a (Finite 1), c, d, e, f, g, h, i]"])
      (simp add: back_substitution_double_eqs quadratic_sum_def)
next
  case Sphere
  with assms obtain f g h i where u: "u = [f, g, h, i]"
    using list_len4 [of u] by auto
  show ?thesis
    unfolding Sphere u
    by (intro exI [of _ "[Finite (- 1), Finite (- 1), Finite (- 1), Finite 0, Finite 0, Finite 0,
        f, g, h, i]"])
      (simp add: back_substitution_double_eqs quadratic_sum_def)
next
  case Aligned
  with assms obtain a b f g h i where u: "u = [a, b, f, g, h, i]"
    using list_len6 [of u] by auto
  show ?thesis
    unfolding Aligned u
    using general_exact [of a b]
    by (intro exI [of _ "[double_sub (double_add a b) (Finite 1),
        double_sub (double_sub a (double_mul (Finite 2) b)) (Finite 1),
        double_sub (double_sub b (double_mul (Finite 2) a)) (Finite 1), Finite 0, Finite 0, Finite 0,
        f, g, h, i]"])
      (simp add: back_substitution_double_eqs quadratic_sum_def)
next
  case AlignedXYEqual
  with assms obtain a f g h i where u: "u = [a, f, g, h, i]"
    using list_len5 [of u] by auto
  show ?thesis
    unfolding AlignedXYEqual u
    using equal_exact [of a]
    by (intro exI [of _ "[double_sub a (Finite 1), double_sub a (Finite 1),
        double_sub (double_mul (Finite (- 2)) a) (Finite 1), Finite 0, Finite 0, Finite 0,
        f, g, h, i]"])
      (simp add: back_substitution_double_eqs quadratic_sum_def)
next
  case AlignedXZEqual
  with assms obtain a f g h i where u: "u = [a, f, g, h, i]"
    using list_len5 [of u] by auto
  show ?thesis
    unfolding AlignedXZEqual u
    using equal_exact [of a]
    by (intro exI [of _ "[double_sub a (Finite 1), double_sub (double_mul (Finite (- 2)) a) (Finite 1),
        double_sub a (Finite 1), Finite 0, Finite 0, Finite 0,
        f, g, h, i]"])
      (simp add: back_substitution_double_eqs quadratic_sum_def)
qed

subsection \<open>Particular roundings\<close>

lemma representable_small:
  "representable 0" "representable 1" "representable 2" "representable 3" "representable 4"
  "representable (- 1)" "representable (- 3)" "representable (- 4)"
  "representable (1 / 2)" "representable (1 / 4)"
  using representable_int [of 0] representable_int [of 1] representable_int [of 2]
    representable_int [of 3] representable_int [of 4] representable_int [of "- 1"]
    representable_int [of "- 3"] representable_int [of "- 4"]
    representable_powi [of "- 1" 1] representable_powi [of "- 2" 1]
  by simp_all

lemma representable_large:
  "representable (2 ^ 53)" "representable (2 ^ 53 - 1)" "representable (2 ^ 53 - 2)"
  "representable (2 ^ 53 - 3)" "representable (2 ^ 54)" "representable (2 powi (- 1030))"
  using representable_powi [of 1 "2 ^ 52"] representable_int [of "2 ^ 53 - 1"]
    representable_int [of "2 ^ 53 - 2"] representable_int [of "2 ^ 53 - 3"]
    representable_powi [of 54 1] representable_powi [of "- 1030" 1]
  by simp_all

text \<open>
  \<open>2\<^sup>5\<^sup>3 + 1\<close> lies halfway between two doubles and goes to the even one, \<open>2\<^sup>5\<^sup>3\<close>;
  \<open>1 - 2\<^sup>5\<^sup>4\<close> and \<open>- 2\<^sup>5\<^sup>4 - 1\<close> both round to \<open>- 2\<^sup>5\<^sup>4\<close>; \<open>2\<^sup>1\<^sup>0\<^sup>3\<^sup>0\<close> overflows.
\<close>

lemma round64_tie: "round64 (2 ^ 53 + 1) = Finite (2 ^ 53)"
proof -
  have "round_real (2 ^ 53 + 1) = 2 ^ 53"
    by (subst round_real_at [of _ 53]) (simp_all add: round_even_def)
  then show ?thesis by (simp add: round64_def overflow_bound_def)
qed

lemma round64_tie_negative: "round64 (1 - 2 ^ 54) = Finite (- (2 ^ 54))"
proof -
  have "round_real (1 - 2 ^ 54) = - (2 ^ 54)"
    by (subst round_real_at [of _ 53]) (simp_all add: round_even_def)
  then show ?thesis by (simp add: round64_def overflow_bound_def)
qed

lemma round64_below: "round64 (- (2 ^ 54) - 1) = Finite (- (2 ^ 54))"
proof -
  have "round_real (- (2 ^ 54) - 1) = - (2 ^ 54)"
    by (subst round_real_at [of _ 54]) (simp_all add: round_even_def)
  then show ?thesis by (simp add: round64_def overflow_bound_def)
qed

lemma round64_overflow: "round64 (2 ^ 1030) = PosInf"
proof -
  have "round_real (2 ^ 1030) = 2 ^ 1030"
    using round_real_fixed [of 1 1030] by simp
  then show ?thesis by (simp add: round64_def overflow_bound_def)
qed

lemma quadratic_coefficients_at_2_53:
  "double_sub (double_add (Finite (2 ^ 53)) (Finite 1)) (Finite 1) = Finite (2 ^ 53 - 1)"
  "double_sub (double_sub (Finite (2 ^ 53)) (double_mul (Finite 2) (Finite 1))) (Finite 1) =
     Finite (2 ^ 53 - 3)"
  "double_sub (double_sub (Finite 1) (double_mul (Finite 2) (Finite (2 ^ 53)))) (Finite 1) =
     Finite (- (2 ^ 54))"
  using round64_tie round64_tie_negative round64_below representable_large representable_small
  by (simp_all add: double_add_def double_sub_def double_mul_def representable_def)

text \<open>
  The equal coefficients and the zero cross terms of the variants do not depend on the
  rounding: they are written from one expression, or from a constant.
\<close>

lemma back_substitution_double_symmetry:
  "length u = 8 \<Longrightarrow> stored (back_substitution_double XYEqual u) ! 0 =
     stored (back_substitution_double XYEqual u) ! 1"
  "length u = 8 \<Longrightarrow> stored (back_substitution_double XZEqual u) ! 0 =
     stored (back_substitution_double XZEqual u) ! 2"
  "length u = 4 \<Longrightarrow> take 6 (stored (back_substitution_double Sphere u)) =
     [Finite (- 1), Finite (- 1), Finite (- 1), Finite 0, Finite 0, Finite 0]"
  "length u = 6 \<Longrightarrow> take 3 (drop 3 (stored (back_substitution_double Aligned u))) =
     [Finite 0, Finite 0, Finite 0]"
  "length u = 5 \<Longrightarrow> take 3 (drop 3 (stored (back_substitution_double AlignedXYEqual u))) =
     [Finite 0, Finite 0, Finite 0]"
  "length u = 5 \<Longrightarrow> take 3 (drop 3 (stored (back_substitution_double AlignedXZEqual u))) =
     [Finite 0, Finite 0, Finite 0]"
proof -
  show "length u = 8 \<Longrightarrow> stored (back_substitution_double XYEqual u) ! 0 =
      stored (back_substitution_double XYEqual u) ! 1"
    using list_len8 [of u] by (auto simp: back_substitution_double_eqs stored_def)
  show "length u = 8 \<Longrightarrow> stored (back_substitution_double XZEqual u) ! 0 =
      stored (back_substitution_double XZEqual u) ! 2"
    using list_len8 [of u] by (auto simp: back_substitution_double_eqs stored_def)
  show "length u = 4 \<Longrightarrow> take 6 (stored (back_substitution_double Sphere u)) =
      [Finite (- 1), Finite (- 1), Finite (- 1), Finite 0, Finite 0, Finite 0]"
    using list_len4 [of u] by (auto simp: back_substitution_double_eqs stored_def)
  show "length u = 6 \<Longrightarrow> take 3 (drop 3 (stored (back_substitution_double Aligned u))) =
      [Finite 0, Finite 0, Finite 0]"
    using list_len6 [of u] by (auto simp: back_substitution_double_eqs stored_def)
  show "length u = 5 \<Longrightarrow> take 3 (drop 3 (stored (back_substitution_double AlignedXYEqual u))) =
      [Finite 0, Finite 0, Finite 0]"
    using list_len5 [of u] by (auto simp: back_substitution_double_eqs stored_def)
  show "length u = 5 \<Longrightarrow> take 3 (drop 3 (stored (back_substitution_double AlignedXZEqual u))) =
      [Finite 0, Finite 0, Finite 0]"
    using list_len5 [of u] by (auto simp: back_substitution_double_eqs stored_def)
qed

text \<open>
  Integers of magnitude up to \<open>2\<^sup>5\<^sup>0\<close> are solutions for which no operation rounds.
\<close>

lemma no_rounding_general_int:
  assumes "\<bar>m\<bar> \<le> 2 ^ 50" and "\<bar>n\<bar> \<le> 2 ^ 50"
  shows "no_rounding_general (Finite (of_int m)) (Finite (of_int n))"
proof -
  have "\<bar>m + n\<bar> < 2 ^ 53" "\<bar>m + n - 1\<bar> < 2 ^ 53" "\<bar>2 * n\<bar> < 2 ^ 53"
    "\<bar>m - 2 * n\<bar> < 2 ^ 53" "\<bar>m - 2 * n - 1\<bar> < 2 ^ 53" "\<bar>2 * m\<bar> < 2 ^ 53"
    "\<bar>n - 2 * m\<bar> < 2 ^ 53" "\<bar>n - 2 * m - 1\<bar> < 2 ^ 53"
    using assms by (auto simp: abs_le_iff abs_less_iff)
  from this [THEN representable_int] show ?thesis
    by (simp add: no_rounding_general_def)
qed

text \<open>
  The order of inverse and root matters at the negative zero: the code takes the root of
  the inverse, which is NaN there, and the inverse of the root would be \<open>-\<infinity>\<close>.
\<close>

lemma root_of_inverse_at_negative_zero:
  "sqrt_double (inverse_double NegZero) = NaN \<and> inverse_double (sqrt_double NegZero) = NegInf"
  by simp

text \<open>
  An eigenvalue so small that its inverse overflows: the radius is \<open>+\<infinity>\<close>.
\<close>

lemma radius_of_tiny_eigenvalue:
  "is_double (Finite (2 powi (- 1030))) \<and>
   sqrt_double (inverse_double (Finite (2 powi (- 1030)))) = PosInf"
  using representable_large(6) round64_overflow by simp

section \<open>The claims\<close>

text \<open>
  The statements below are about the parts of \<^verbatim>\<open>fit\<close> that the file itself computes. What
  the decompositions of Eigen return (how close the recovered center and radii are to the
  ellipsoid the points were sampled from, that the solution of the normal equations is the
  one of minimum norm, that every call returns) is a property of those routines in
  floating-point arithmetic and is not stated here.
\<close>

subsection \<open>The radii\<close>

text \<open>
  Claim C2, as the specification states it, says that a radius is NaN whenever its
  eigenvalue is not positive. Line 210 computes \<open>sqrt (1 / x)\<close>: for the eigenvalues
  \<open>(0, 1, 1)\<close> the first radius is \<open>sqrt (1 / 0) = sqrt (+\<infinity>) = +\<infinity>\<close>, which is not NaN.
\<close>

theorem radii_zero_eigenvalue_counterexample:
  "is_double (Finite 0) \<and> nonpositive (Finite 0) \<and>
   radii_of [Finite 0, Finite 1, Finite 1] ! 0 \<noteq> NaN"
  using representable_small(1)
  by (simp add: radii_of_def cwiseSqrt_def cwiseInverse_def)

text \<open>
  Claim C2, amended: for every input, every variant and every destination, the radii that
  \<open>fit\<close> returns are, entry by entry, the root of the inverse of the reordered
  eigenvalues, both operations in the arithmetic of doubles. For an eigenvalue that is a
  double, the radius is NaN exactly when the eigenvalue is a finite negative number, the
  negative zero or NaN; it is \<open>+\<infinity>\<close>, not NaN, for the positive zero; it is a positive
  number, or \<open>+\<infinity>\<close> when the inverse overflows, for a positive eigenvalue; it is zero for
  \<open>+\<infinity>\<close> and the negative zero for \<open>-\<infinity>\<close>. Each of them is a value of the result, not
  an error.
\<close>

theorem fit_radii:
  assumes "list_all is_double
    (fst (leastRotationAngle (EigenSolver (fit_eigen_input bdcSvd_solve data ty))))"
  shows "radii (fst (fit bdcSvd_solve EigenSolver leastRotationAngle data dst ty)) =
     map (\<lambda>e. sqrt_double (inverse_double e))
       (fst (leastRotationAngle (EigenSolver (fit_eigen_input bdcSvd_solve data ty)))) \<and>
   list_all2 radius_spec
     (fst (leastRotationAngle (EigenSolver (fit_eigen_input bdcSvd_solve data ty))))
     (radii (fst (fit bdcSvd_solve EigenSolver leastRotationAngle data dst ty)))"
proof -
  define eval where
    "eval = fst (leastRotationAngle (EigenSolver (fit_eigen_input bdcSvd_solve data ty)))"
  have r: "radii (fst (fit bdcSvd_solve EigenSolver leastRotationAngle data dst ty)) =
      map (\<lambda>e. sqrt_double (inverse_double e)) eval"
    by (simp add: fit_def fit_eigen_input_def Let_def radii_of_def cwiseSqrt_def
        cwiseInverse_def eval_def)
  have "\<forall>e\<in>set eval. radius_spec e (sqrt_double (inverse_double e))"
    using assms by (auto simp: eval_def list_all_iff intro: radius_of_double)
  then have "list_all2 radius_spec eval (map (\<lambda>e. sqrt_double (inverse_double e)) eval)"
    by (simp add: list_all2_map2 list_all2_same)
  with r show ?thesis by (simp add: eval_def)
qed

theorem fit_radii_witness:
  "list_all is_double [Finite 4, Finite (- 1), Finite (2 powi (- 1030))] \<and>
   radii (fst (fit (\<lambda>M b. replicate (length b) 0)
      (\<lambda>M. ([Finite 4, Finite (- 1), Finite (2 powi (- 1030))], []))
      (\<lambda>e. e) [(1, 0, 0)] null_destinations Sphere)) =
   [Finite (1 / 2), NaN, PosInf]"
  using fit_radii [where bdcSvd_solve = "\<lambda>M b. replicate (length b) 0"
      and EigenSolver = "\<lambda>M. ([Finite 4, Finite (- 1), Finite (2 powi (- 1030))], [])"
      and leastRotationAngle = "\<lambda>e. e" and data = "[(1, 0, 0)]"
      and dst = null_destinations and ty = Sphere]
    representable_small representable_large(6) round64_overflow
  by (simp add: representable_def real_sqrt_divide)

subsection \<open>The coefficient vector\<close>

text \<open>
  Claim C3, as the specification states it, says that \<open>v(0) + v(1) + v(2) = - 3\<close> for
  every solution \<open>u\<close>. The three coefficients are computed in doubles, and each operation
  rounds. For the variant \<open>Arbitrary\<close> and \<open>u = (2\<^sup>5\<^sup>3, 1, 0, \<dots>, 0)\<close> the code stores
  \<open>v(0) = 2\<^sup>5\<^sup>3 - 1\<close>, since \<open>2\<^sup>5\<^sup>3 + 1\<close> rounds to \<open>2\<^sup>5\<^sup>3\<close>, then \<open>v(1) = 2\<^sup>5\<^sup>3 - 3\<close> and
  \<open>v(2) = - 2\<^sup>5\<^sup>4\<close>: the sum is \<open>- 4\<close>.
\<close>

theorem back_substitution_rounding_counterexample:
  "length [Finite (2 ^ 53), Finite 1, Finite 0, Finite 0, Finite 0, Finite 0, Finite 0,
      Finite 0, Finite 0] = design_cols Arbitrary \<and>
   list_all is_double [Finite (2 ^ 53), Finite 1, Finite 0, Finite 0, Finite 0, Finite 0,
      Finite 0, Finite 0, Finite 0] \<and>
   take 3 (stored (back_substitution_double Arbitrary
     [Finite (2 ^ 53), Finite 1, Finite 0, Finite 0, Finite 0, Finite 0, Finite 0,
      Finite 0, Finite 0])) =
     [Finite (2 ^ 53 - 1), Finite (2 ^ 53 - 3), Finite (- (2 ^ 54))] \<and>
   quadratic_sum (stored (back_substitution_double Arbitrary
     [Finite (2 ^ 53), Finite 1, Finite 0, Finite 0, Finite 0, Finite 0, Finite 0,
      Finite 0, Finite 0])) = Some (- 4)"
  using representable_large(1) representable_small(1,2) quadratic_coefficients_at_2_53
  by (simp add: back_substitution_double_Arbitrary stored_def quadratic_sum_def)

text \<open>
  Claim C3, amended: for every variant and every solution \<open>u\<close> of the reduced system (a
  vector with one entry for each column of the design matrix of the variant), the switch
  writes all ten entries of \<open>v\<close>; and \<open>v(0) + v(1) + v(2) = - 3\<close> holds whenever the
  entries of \<open>u\<close> that the formulas of the variant read are finite and none of their
  operations rounds or overflows, which is always the case for \<open>Sphere\<close>.
\<close>

theorem back_substitution_double_normalised:
  assumes "length u = design_cols ty"
  shows "back_substitution_double ty u = map Some (stored (back_substitution_double ty u)) \<and>
         length (stored (back_substitution_double ty u)) = 10 \<and>
         (no_rounding ty u \<longrightarrow>
            quadratic_sum (stored (back_substitution_double ty u)) = Some (- 3))"
proof -
  from back_substitution_double_cases [OF assms]
  obtain v where "back_substitution_double ty u = map Some v" and "length v = 10"
    and "no_rounding ty u \<longrightarrow> quadratic_sum v = Some (- 3)"
    by blast
  then show ?thesis
    by (simp add: stored_map_Some)
qed

theorem back_substitution_double_normalised_witness:
  "length [Finite 1, Finite 2, Finite 3, Finite 4, Finite 5, Finite 6, Finite 7, Finite 8,
      Finite 9] = design_cols Arbitrary \<and>
   no_rounding Arbitrary [Finite 1, Finite 2, Finite 3, Finite 4, Finite 5, Finite 6, Finite 7,
      Finite 8, Finite 9] \<and>
   back_substitution_double Arbitrary [Finite 1, Finite 2, Finite 3, Finite 4, Finite 5,
      Finite 6, Finite 7, Finite 8, Finite 9] =
     map Some [Finite 2, Finite (- 4), Finite (- 1), Finite 3, Finite 4, Finite 5, Finite 6,
       Finite 7, Finite 8, Finite 9] \<and>
   quadratic_sum (stored (back_substitution_double Arbitrary [Finite 1, Finite 2, Finite 3,
      Finite 4, Finite 5, Finite 6, Finite 7, Finite 8, Finite 9])) = Some (- 3)"
  using back_substitution_double_normalised [of "[Finite 1, Finite 2, Finite 3, Finite 4,
      Finite 5, Finite 6, Finite 7, Finite 8, Finite 9]" Arbitrary]
    representable_small
  by (simp add: back_substitution_double_Arbitrary no_rounding_general_def
      double_add_def double_sub_def double_mul_def representable_def)

subsection \<open>The design matrix\<close>

text \<open>
  Claim C4: for every input, the design matrix of the variants \<open>Arbitrary\<close>, \<open>XYEqual\<close>,
  \<open>XZEqual\<close>, \<open>Sphere\<close>, \<open>Aligned\<close>, \<open>AlignedXYEqual\<close>, \<open>AlignedXZEqual\<close> has 9, 8, 8,
  4, 6, 5, 5 columns, each with one entry for each point, and every entry is written: the
  row of a point is \<open>design_row\<close> of that point, made of the combinations of its squared
  coordinates, its doubled cross products and coordinates, and a final one.
\<close>

theorem design_matrix_layout:
  "length (design_matrix ty data) = design_cols ty \<and>
   map length (design_matrix ty data) = replicate (design_cols ty) (length data) \<and>
   rows_of (length data) (design_matrix ty data) = map (\<lambda>p. map Some (design_row ty p)) data"
proof (intro conjI)
  show cols: "map length (design_matrix ty data) = replicate (design_cols ty) (length data)"
    by (rule design_matrix_lengths)
  from arg_cong [OF cols, of length]
  show "length (design_matrix ty data) = design_cols ty"
    by simp
  show "rows_of (length data) (design_matrix ty data) =
      map (\<lambda>p. map Some (design_row ty p)) data"
    unfolding rows_of_def
    by (rule nth_equalityI) (simp_all add: design_matrix_row)
qed

theorem design_matrix_layout_witness:
  "length (design_matrix Aligned [(1, 2, 3), (0, 1, - 1)]) = 6 \<and>
   rows_of 2 (design_matrix Aligned [(1, 2, 3), (0, 1, - 1)]) =
     [map Some [- 13, 2, 2, 4, 6, 1], map Some [- 1, - 1, 0, 2, - 2, 1]]"
  using design_matrix_layout [of Aligned "[(1, 2, 3), (0, 1, - 1)]"]
  by (simp add: numeral_2_eq_2)

subsection \<open>The constraints of the variants\<close>

text \<open>
  Claim C5: for every solution \<open>u\<close> of the reduced system, the coefficients written by
  the switch satisfy the constraints of the variant: \<open>A = B\<close> for \<open>XYEqual\<close>, \<open>A = C\<close> for
  \<open>XZEqual\<close>, \<open>A = B = C\<close> and no cross term for \<open>Sphere\<close>, and the three cross terms
  \<open>v(3)\<close>, \<open>v(4)\<close>, \<open>v(5)\<close> equal to zero for \<open>Aligned\<close>, \<open>AlignedXYEqual\<close> and
  \<open>AlignedXZEqual\<close>.
\<close>

theorem back_substitution_symmetry:
  assumes "length u = design_cols ty"
  shows "back_substitution ty u = map Some (stored (back_substitution ty u)) \<and>
         symmetry_constraint ty (stored (back_substitution ty u))"
proof -
  from back_substitution_closed_form [OF assms]
  obtain v where "back_substitution ty u = map Some v" and "symmetry_constraint ty v"
    by blast
  then show ?thesis
    by (simp add: stored_map_Some)
qed

theorem back_substitution_symmetry_witness:
  "length [5, 1, 2, 3 :: real] = design_cols Sphere \<and>
   symmetry_constraint Sphere (stored (back_substitution Sphere [5, 1, 2, 3])) \<and>
   stored (back_substitution Sphere [5, 1, 2, 3]) = [- 1, - 1, - 1, 0, 0, 0, 5, 1, 2, 3]"
  using back_substitution_symmetry [of "[5, 1, 2, 3]" Sphere]
  by (simp add: back_substitution_Sphere stored_def)

subsection \<open>The quadric matrix\<close>

text \<open>
  Claim C7: the \<open>4 \<times> 4\<close> matrix built from the ten coefficients is symmetric; its diagonal
  holds the three quadratic coefficients and the constant term; the entries above the
  diagonal are half the cross and linear terms of the quadric, and symmetry places them
  below it as well. With this layout \<open>(x, y, z, 1) A (x, y, z, 1)\<^sup>T\<close> is the quadric.
\<close>

theorem quadric_matrix_symmetric:
  assumes "length v = 10"
  shows "mtranspose (quadric_matrix v) = quadric_matrix v \<and>
     map (\<lambda>i. quadric_matrix v ! i ! i) [0, 1, 2, 3] = [v ! 0, v ! 1, v ! 2, v ! 9] \<and>
     quadric_matrix v ! 0 ! 1 = term_xy v / 2 \<and>
     quadric_matrix v ! 0 ! 2 = term_xz v / 2 \<and>
     quadric_matrix v ! 1 ! 2 = term_yz v / 2 \<and>
     quadric_matrix v ! 0 ! 3 = term_x v / 2 \<and>
     quadric_matrix v ! 1 ! 3 = term_y v / 2 \<and>
     quadric_matrix v ! 2 ! 3 = term_z v / 2 \<and>
     dot [x, y, z, 1] (mat_vec (quadric_matrix v) [x, y, z, 1]) = quadric v (x, y, z)"
proof -
  have "map (\<lambda>i. quadric_matrix v ! i ! i) [0, 1, 2, 3] = [v ! 0, v ! 1, v ! 2, v ! 9]"
    by (simp add: quadric_matrix_def)
  moreover have "quadric_matrix v ! 0 ! 1 = term_xy v / 2"
    "quadric_matrix v ! 0 ! 2 = term_xz v / 2" "quadric_matrix v ! 1 ! 2 = term_yz v / 2"
    "quadric_matrix v ! 0 ! 3 = term_x v / 2" "quadric_matrix v ! 1 ! 3 = term_y v / 2"
    "quadric_matrix v ! 2 ! 3 = term_z v / 2"
    by (simp_all add: quadric_matrix_def term_defs)
  ultimately show ?thesis
    using quadric_matrix_transpose [of v] quadric_matrix_form [of x y z v] by simp
qed

theorem quadric_matrix_symmetric_witness:
  "length [1, 2, 3, 4, 5, 6, 7, 8, 9, 10 :: real] = 10 \<and>
   quadric_matrix [1, 2, 3, 4, 5, 6, 7, 8, 9, 10] =
     [[1, 4, 5, 7], [4, 2, 6, 8], [5, 6, 3, 9], [7, 8, 9, 10]] \<and>
   mtranspose (quadric_matrix [1, 2, 3, 4, 5, 6, 7, 8, 9, 10]) =
     quadric_matrix [1, 2, 3, 4, 5, 6, 7, 8, 9, 10] \<and>
   quadric_matrix [1, 2, 3, 4, 5, 6, 7, 8, 9, 10] ! 0 ! 1 =
     term_xy [1, 2, 3, 4, 5, 6, 7, 8, 9, 10] / 2 \<and>
   dot [1, 1, 1, 1] (mat_vec (quadric_matrix [1, 2, 3, 4, 5, 6, 7, 8, 9, 10]) [1, 1, 1, 1]) =
     quadric [1, 2, 3, 4, 5, 6, 7, 8, 9, 10] (1, 1, 1)"
  using quadric_matrix_symmetric [of "[1, 2, 3, 4, 5, 6, 7, 8, 9, 10]" 1 1 1]
  by (simp add: quadric_matrix_def)

subsection \<open>The translation\<close>

text \<open>
  Claim C10: whatever the center, the product \<open>R = T A T\<^sup>T\<close> has the block of the first
  three rows and columns of \<open>A\<close>, unchanged, as its own; so the matrix handed to the
  eigendecomposition is that block of \<open>A\<close> divided by \<open>- R(3, 3)\<close>, and the center
  enters through this scalar only.
\<close>

theorem translation_keeps_quadratic_block:
  assumes "length v = 10" and "length c = 3"
  shows "block33 (translated (quadric_matrix v) c) = block33 (quadric_matrix v) \<and>
     eigen_input (translated (quadric_matrix v) c) =
       map (map (\<lambda>a. a / - (translated (quadric_matrix v) c ! 3 ! 3)))
         (block33 (quadric_matrix v))"
proof -
  from assms(2) obtain c0 c1 c2 where c: "c = [c0, c1, c2]"
    using list_len3 [of c] by auto
  have "block33 (translated (quadric_matrix v) c) = block33 (quadric_matrix v)"
    unfolding c quadric_matrix_def by (simp add: translated_block) (simp add: block33_def)
  then show ?thesis
    by (simp add: eigen_input_def)
qed

theorem translation_keeps_quadratic_block_witness:
  "length [- 1, - 1, - 1, 0, 0, 0, 1, 2, 3, 4 :: real] = 10 \<and>
   length [1, 2, 3 :: real] = 3 \<and>
   translated (quadric_matrix [- 1, - 1, - 1, 0, 0, 0, 1, 2, 3, 4]) [1, 2, 3] =
     [[- 1, 0, 0, 0], [0, - 1, 0, 0], [0, 0, - 1, 0], [0, 0, 0, 18]] \<and>
   block33 (translated (quadric_matrix [- 1, - 1, - 1, 0, 0, 0, 1, 2, 3, 4]) [1, 2, 3]) =
     [[- 1, 0, 0], [0, - 1, 0], [0, 0, - 1]] \<and>
   eigen_input (translated (quadric_matrix [- 1, - 1, - 1, 0, 0, 0, 1, 2, 3, 4]) [1, 2, 3]) =
     [[1 / 18, 0, 0], [0, 1 / 18, 0], [0, 0, 1 / 18]]"
  using translation_keeps_quadratic_block [of "[- 1, - 1, - 1, 0, 0, 0, 1, 2, 3, 4]" "[1, 2, 3]"]
  by (simp add: quadric_matrix_def matrix_defs eigen_input_def)

subsection \<open>The order of the last steps\<close>

text \<open>
  Claim C9: in every call, the eigenvalues and eigenvectors of the solver go through
  \<open>leastRotationAngle\<close> first. The radii are computed from the reordered eigenvalues,
  entry \<open>i\<close> from eigenvalue \<open>i\<close>, and a destination for the eigenvalues or the
  eigenvectors that is not null receives the reordered ones: entry \<open>i\<close> of the radii and
  eigenpair \<open>i\<close> of the outputs belong to the same axis.
\<close>

theorem fit_outputs_canonical:
  "radii (fst (fit bdcSvd_solve EigenSolver leastRotationAngle data dst ty)) =
     radii_of (fst (leastRotationAngle (EigenSolver (fit_eigen_input bdcSvd_solve data ty)))) \<and>
   eval_p (snd (fit bdcSvd_solve EigenSolver leastRotationAngle data dst ty)) =
     store (eval_p dst)
       (fst (leastRotationAngle (EigenSolver (fit_eigen_input bdcSvd_solve data ty)))) \<and>
   evec_column_p (snd (fit bdcSvd_solve EigenSolver leastRotationAngle data dst ty)) =
     store (evec_column_p dst)
       (snd (leastRotationAngle (EigenSolver (fit_eigen_input bdcSvd_solve data ty))))"
  by (simp add: fit_def fit_eigen_input_def Let_def)

theorem fit_outputs_canonical_witness:
  "radii (fst (fit (\<lambda>M b. replicate (length b) 0)
      (\<lambda>M. ([Finite 4, Finite 1, Finite (1 / 4)],
           [[Finite 1, Finite 0, Finite 0], [Finite 0, Finite 1, Finite 0],
            [Finite 0, Finite 0, Finite 1]]))
      (\<lambda>(vals, vecs). (rev vals, map rev vecs)) [(1, 0, 0)]
      \<lparr>coefficients_p = None, eval_p = Some [], evec_column_p = Some []\<rparr> Sphere)) =
     [Finite 2, Finite 1, Finite (1 / 2)] \<and>
   eval_p (snd (fit (\<lambda>M b. replicate (length b) 0)
      (\<lambda>M. ([Finite 4, Finite 1, Finite (1 / 4)],
           [[Finite 1, Finite 0, Finite 0], [Finite 0, Finite 1, Finite 0],
            [Finite 0, Finite 0, Finite 1]]))
      (\<lambda>(vals, vecs). (rev vals, map rev vecs)) [(1, 0, 0)]
      \<lparr>coefficients_p = None, eval_p = Some [], evec_column_p = Some []\<rparr> Sphere)) =
     Some [Finite (1 / 4), Finite 1, Finite 4] \<and>
   evec_column_p (snd (fit (\<lambda>M b. replicate (length b) 0)
      (\<lambda>M. ([Finite 4, Finite 1, Finite (1 / 4)],
           [[Finite 1, Finite 0, Finite 0], [Finite 0, Finite 1, Finite 0],
            [Finite 0, Finite 0, Finite 1]]))
      (\<lambda>(vals, vecs). (rev vals, map rev vecs)) [(1, 0, 0)]
      \<lparr>coefficients_p = None, eval_p = Some [], evec_column_p = Some []\<rparr> Sphere)) =
     Some [[Finite 0, Finite 0, Finite 1], [Finite 0, Finite 1, Finite 0],
           [Finite 1, Finite 0, Finite 0]]"
  using fit_outputs_canonical [of "\<lambda>M b. replicate (length b) 0"
      "\<lambda>M. ([Finite 4, Finite 1, Finite (1 / 4)],
           [[Finite 1, Finite 0, Finite 0], [Finite 0, Finite 1, Finite 0],
            [Finite 0, Finite 0, Finite 1]])"
      "\<lambda>(vals, vecs). (rev vals, map rev vecs)" "[(1, 0, 0)]"
      "\<lparr>coefficients_p = None, eval_p = Some [], evec_column_p = Some []\<rparr>" Sphere]
    representable_small
  by (simp add: radii_of_def cwiseSqrt_def cwiseInverse_def store_def real_sqrt_divide
      representable_def)

end
